theory Spec2Isabelle
  imports Main "HOL-Library.Word"
begin

unbundle bit_operations_syntax

section \<open>The ST7920 driver of DigitalClockMK1 (src/main/driver_st7920.cpp)\<close>

text \<open>
  The driver is Arduino C++. Its integer types are modelled with their widths:
  \<open>byte\<close> is an unsigned 8-bit value, \<open>short\<close> a signed 16-bit value, and
  \<open>int\<close> (the type every operand is promoted to) is the 16-bit \<open>int\<close> of the AVR
  boards, so an \<open>int\<close> expression is a \<open>16 word\<close> too. \<open>>>\<close> on a signed operand is
  the arithmetic shift of gcc (\<open>signed_drop_bit\<close>), \<open><<\<close> is \<open>push_bit\<close>, and passing an
  \<open>int\<close> to \<open>SPI.transfer(uint8_t)\<close> keeps its low eight bits (\<open>ucast\<close>). Plain
  \<open>char\<close> is signed on AVR, so a \<open>char\<close> is promoted with its sign (\<open>scast\<close>).
\<close>

type_synonym byte = "8 word"
type_synonym short = "16 word"

subsection \<open>The external collaborators: the SPI bus and the delays\<close>

text \<open>
  The driver's only effects besides its four static variables are calls of
  \<open>SPI.begin\<close>, \<open>SPI.beginTransaction\<close>, \<open>SPI.transfer\<close>, \<open>delayMicroseconds\<close> and
  \<open>delay\<close>. The model records each call, in order, in the field \<open>bus\<close>.
\<close>

datatype bit_order = LSBFIRST | MSBFIRST

datatype spi_mode = SPI_MODE0 | SPI_MODE1 | SPI_MODE2 | SPI_MODE3

datatype event =
    Begin
  | BeginTransaction nat bit_order spi_mode
  | Transfer byte
  | DelayMicroseconds nat
  | Delay nat

text \<open>The four \<open>volatile static\<close> variables (lines 6 to 9), and the record of the calls.\<close>

record driver =
  instructionSet_ST7920 :: char
  displayStatus_ST7920 :: bool
  underlineCursorStatus_ST7920 :: bool
  blinkCursorStatus_ST7920 :: bool
  bus :: "event list"

text \<open>The state at program start: the static initialisers, and nothing sent yet.\<close>

definition startup :: driver where
  "startup =
     \<lparr>instructionSet_ST7920 = CHR ''B'',
      displayStatus_ST7920 = True,
      underlineCursorStatus_ST7920 = True,
      blinkCursorStatus_ST7920 = True,
      bus = []\<rparr>"

definition SPI_begin :: "driver \<Rightarrow> driver" where
  "SPI_begin s = s\<lparr>bus := bus s @ [Begin]\<rparr>"

definition SPI_beginTransaction :: "nat \<Rightarrow> bit_order \<Rightarrow> spi_mode \<Rightarrow> driver \<Rightarrow> driver" where
  "SPI_beginTransaction clock order mode s = s\<lparr>bus := bus s @ [BeginTransaction clock order mode]\<rparr>"

definition SPI_transfer :: "byte \<Rightarrow> driver \<Rightarrow> driver" where
  "SPI_transfer b s = s\<lparr>bus := bus s @ [Transfer b]\<rparr>"

definition delayMicroseconds :: "nat \<Rightarrow> driver \<Rightarrow> driver" where
  "delayMicroseconds us s = s\<lparr>bus := bus s @ [DelayMicroseconds us]\<rparr>"

definition delay :: "nat \<Rightarrow> driver \<Rightarrow> driver" where
  "delay ms s = s\<lparr>bus := bus s @ [Delay ms]\<rparr>"

subsection \<open>Transaction encoder (lines 18 to 24)\<close>

text \<open>
  In C, \<open>>>\<close> and \<open><<\<close> bind tighter than \<open>&\<close>, and \<open>&\<close> tighter than \<open>|\<close>:
  the first byte is \<open>((instruction >> 8) & 2) | ((instruction >> 6) & 4) | 0b11111000\<close>.
\<close>

definition sendInstruction_ST7920 :: "short \<Rightarrow> driver \<Rightarrow> driver" where
  "sendInstruction_ST7920 instruction s =
     (let s1 = SPI_transfer (ucast ((signed_drop_bit 8 instruction AND 0b0000000010) OR
                                    (signed_drop_bit 6 instruction AND 0b0000000100) OR 0b11111000)) s;
          s2 = SPI_transfer (ucast (instruction AND 0b0011110000)) s1;
          s3 = SPI_transfer (ucast (push_bit 4 instruction AND 0b0011110000)) s2
      in delayMicroseconds 80 s3)"

subsection \<open>Mode tracker (lines 30 to 38)\<close>

definition chooseInstructionSet_ST7920 :: "char \<Rightarrow> driver \<Rightarrow> driver" where
  "chooseInstructionSet_ST7920 choice s =
     (if choice = CHR ''E'' \<and> instructionSet_ST7920 s = CHR ''B'' then
        sendInstruction_ST7920 0b0000110100 (s\<lparr>instructionSet_ST7920 := CHR ''E''\<rparr>)
      else if choice = CHR ''B'' \<and> instructionSet_ST7920 s = CHR ''E'' then
        sendInstruction_ST7920 0b0000110000 (s\<lparr>instructionSet_ST7920 := CHR ''B''\<rparr>)
      else s)"

subsection \<open>Basic-mode instructions (lines 45 to 78)\<close>

definition setEntryMode_ST7920 :: "char \<Rightarrow> char \<Rightarrow> driver \<Rightarrow> driver" where
  "setEntryMode_ST7920 mode direction s =
     (let s1 = chooseInstructionSet_ST7920 (CHR ''B'') s
      in if mode = CHR ''C'' \<and> direction = CHR ''R'' then sendInstruction_ST7920 0b0000000110 s1
         else if mode = CHR ''C'' \<and> direction = CHR ''L'' then sendInstruction_ST7920 0b0000000100 s1
         else if mode = CHR ''D'' \<and> direction = CHR ''R'' then sendInstruction_ST7920 0b0000000101 s1
         else if mode = CHR ''D'' \<and> direction = CHR ''L'' then sendInstruction_ST7920 0b0000000111 s1
         else s1)"

definition moveCursor_ST7920 :: "char \<Rightarrow> driver \<Rightarrow> driver" where
  "moveCursor_ST7920 direction s =
     (let s1 = chooseInstructionSet_ST7920 (CHR ''B'') s
      in if direction = CHR ''R'' then sendInstruction_ST7920 0b0000010100 s1
         else if direction = CHR ''L'' then sendInstruction_ST7920 0b0000010000 s1
         else s1)"

definition shiftDisplay_ST7920 :: "char \<Rightarrow> driver \<Rightarrow> driver" where
  "shiftDisplay_ST7920 direction s =
     (let s1 = chooseInstructionSet_ST7920 (CHR ''B'') s
      in if direction = CHR ''R'' then sendInstruction_ST7920 0b0000011100 s1
         else if direction = CHR ''L'' then sendInstruction_ST7920 0b0000011000 s1
         else s1)"

definition homeCursor_ST7920 :: "driver \<Rightarrow> driver" where
  "homeCursor_ST7920 s =
     (let s1 = chooseInstructionSet_ST7920 (CHR ''B'') s
      in sendInstruction_ST7920 0b0000000010 s1)"

subsection \<open>Addressing translator (lines 84 to 92)\<close>

text \<open>
  \<open>position\<close> is a \<open>byte\<close>; in \<open>0b0010000000 | position + 8\<close> it is promoted to
  \<open>int\<close>, and \<open>+\<close> binds tighter than \<open>|\<close>. When no branch matches, nothing is sent.
\<close>

definition setCursor_ST7920 :: "byte \<Rightarrow> driver \<Rightarrow> driver" where
  "setCursor_ST7920 position s =
     (if (position \<ge> 0 \<and> position \<le> 7) \<or> (position \<ge> 24 \<and> position \<le> 31) then
        sendInstruction_ST7920 (0b0010000000 OR ucast position) s
      else if position \<ge> 8 \<and> position \<le> 15 then
        sendInstruction_ST7920 (0b0010000000 OR (ucast position + 8)) s
      else if position \<ge> 16 \<and> position \<le> 23 then
        sendInstruction_ST7920 (0b0010000000 OR (ucast position - 8)) s
      else s)"

subsection \<open>Initialisation and clearing (lines 95 to 126)\<close>

definition initialize_ST7920 :: "driver \<Rightarrow> driver" where
  "initialize_ST7920 s =
     (let s1 = SPI_begin s;
          s2 = SPI_beginTransaction 600000 MSBFIRST SPI_MODE3 s1;
          s3 = s2\<lparr>instructionSet_ST7920 := CHR ''B''\<rparr>;
          s4 = sendInstruction_ST7920 0b0000110000 s3;
          s5 = delayMicroseconds 20 s4;
          displayControl0 = (0b0000001000 :: short);
          displayControl1 = (if displayStatus_ST7920 s5 then displayControl0 OR 0b0000000100 else displayControl0);
          displayControl2 = (if underlineCursorStatus_ST7920 s5 then displayControl1 OR 0b0000000010 else displayControl1);
          displayControl3 = (if blinkCursorStatus_ST7920 s5 then displayControl2 OR 0b0000000001 else displayControl2);
          s6 = sendInstruction_ST7920 displayControl3 s5;
          s7 = delayMicroseconds 20 s6;
          s8 = sendInstruction_ST7920 0b0000000001 s7;
          s9 = delay 10 s8
      in sendInstruction_ST7920 0b0000000110 s9)"

definition clearCharacterDisplay_ST7920 :: "driver \<Rightarrow> driver" where
  "clearCharacterDisplay_ST7920 s =
     (let s1 = chooseInstructionSet_ST7920 (CHR ''B'') s;
          s2 = sendInstruction_ST7920 0b0000000001 s1
      in delay 2 s2)"

subsection \<open>Display state controller (lines 129 to 150)\<close>

text \<open>The \<open>switch\<close> has no \<open>default\<close>: any other option character changes no flag.\<close>

definition setDisplayStatus_ST7920 :: "char \<Rightarrow> bool \<Rightarrow> driver \<Rightarrow> driver" where
  "setDisplayStatus_ST7920 option status s =
     (let instruction0 = (0b0000001000 :: short);
          s1 = (if option = CHR ''D'' then s\<lparr>displayStatus_ST7920 := status\<rparr>
                else if option = CHR ''C'' then s\<lparr>underlineCursorStatus_ST7920 := status\<rparr>
                else if option = CHR ''B'' then s\<lparr>blinkCursorStatus_ST7920 := status\<rparr>
                else s);
          instruction1 = (if displayStatus_ST7920 s1 then instruction0 OR 0b0000000100 else instruction0);
          instruction2 = (if underlineCursorStatus_ST7920 s1 then instruction1 OR 0b0000000010 else instruction1);
          instruction3 = (if blinkCursorStatus_ST7920 s1 then instruction2 OR 0b0000000001 else instruction2);
          s2 = chooseInstructionSet_ST7920 (CHR ''B'') s1
      in sendInstruction_ST7920 instruction3 s2)"

subsection \<open>Text renderer (lines 153 to 179)\<close>

text \<open>
  \<open>chars\<close> is a C array, passed with its \<open>length\<close>; the model takes it as a list, and
  a read \<open>chars[i]\<close> past the end of the list, which is undefined behaviour in C, makes
  the result \<open>None\<close>. The loop counter \<open>i\<close> and the running \<open>position\<close> are bytes;
  \<open>position\<close> wraps around at 256 as the byte does. The loop returns the final position
  with the state, since line 164 reads it.
\<close>

function printHalfCharacters_loop ::
  "string \<Rightarrow> byte \<Rightarrow> byte \<Rightarrow> byte \<Rightarrow> driver \<Rightarrow> (byte \<times> driver) option" where
  "printHalfCharacters_loop chars length' i position s =
     (if i < length' then
        (if unat i < size chars then
           (let s1 = (if position = 16 \<or> position = 32 \<or> position = 48
                      then setCursor_ST7920 (position div 2) s else s);
                s2 = sendInstruction_ST7920
                       (0b1000000000 OR scast (of_char (chars ! unat i) :: byte)) s1
            in printHalfCharacters_loop chars length' (i + 1) (position + 1) s2)
         else None)
      else Some (position, s))"
  by pat_completeness auto
termination
proof (relation "measure (\<lambda>(chars, length', i, position, s). unat length' - unat i)")
  show "wf (measure (\<lambda>(chars, length', i, position, s). unat length' - unat i))"
    by simp
next
  fix chars :: "string" and length' i position :: byte and s s2 :: driver
  assume "i < length'"
  then have "unat length' - unat (i + 1) < unat length' - unat i"
    by unat_arith
  then show "((chars, length', i + 1, position + 1, s2), chars, length', i, position, s)
      \<in> measure (\<lambda>(chars, length', i, position, s). unat length' - unat i)"
    by simp
qed

declare printHalfCharacters_loop.simps [simp del]

definition printHalfCharacters_ST7920 ::
  "string \<Rightarrow> byte \<Rightarrow> byte \<Rightarrow> byte \<Rightarrow> driver \<Rightarrow> driver option" where
  "printHalfCharacters_ST7920 chars length' row column s =
     (let position = row * 16 + column;
          s1 = setCursor_ST7920 (position div 2) s;
          s2 = (if position mod 2 = 1 then sendInstruction_ST7920 0b1000100000 s1 else s1)
      in case printHalfCharacters_loop chars length' 0 position s2 of
           None \<Rightarrow> None
         | Some (position', s3) \<Rightarrow>
             Some (if position' mod 2 = 1 then sendInstruction_ST7920 0b1000100000 s3 else s3))"

text \<open>
  In \<open>0b1000000000 | chars[i] >> 8 & 0b0000000011111111\<close> the shift binds tightest,
  then \<open>&\<close>, then \<open>|\<close>.
\<close>

function printFullCharacters_loop ::
  "short list \<Rightarrow> byte \<Rightarrow> byte \<Rightarrow> byte \<Rightarrow> driver \<Rightarrow> driver option" where
  "printFullCharacters_loop chars length' i position s =
     (if i < length' then
        (if unat i < size chars then
           (let s1 = (if position = 8 \<or> position = 16 \<or> position = 24
                      then setCursor_ST7920 position s else s);
                s2 = sendInstruction_ST7920
                       (0b1000000000 OR (signed_drop_bit 8 (chars ! unat i) AND 0b0000000011111111)) s1;
                s3 = sendInstruction_ST7920
                       (0b1000000000 OR (chars ! unat i AND 0b0000000011111111)) s2
            in printFullCharacters_loop chars length' (i + 1) (position + 1) s3)
         else None)
      else Some s)"
  by pat_completeness auto
termination
proof (relation "measure (\<lambda>(chars, length', i, position, s). unat length' - unat i)")
  show "wf (measure (\<lambda>(chars, length', i, position, s). unat length' - unat i))"
    by simp
next
  fix chars :: "short list" and length' i position :: byte and s s2 :: driver
  assume "i < length'"
  then have "unat length' - unat (i + 1) < unat length' - unat i"
    by unat_arith
  then show "((chars, length', i + 1, position + 1, s2), chars, length', i, position, s)
      \<in> measure (\<lambda>(chars, length', i, position, s). unat length' - unat i)"
    by simp
qed

declare printFullCharacters_loop.simps [simp del]

definition printFullCharacters_ST7920 ::
  "short list \<Rightarrow> byte \<Rightarrow> byte \<Rightarrow> byte \<Rightarrow> driver \<Rightarrow> driver option" where
  "printFullCharacters_ST7920 chars length' row column s =
     (let position = row * 8 + column;
          s1 = setCursor_ST7920 position s
      in printFullCharacters_loop chars length' 0 position s1)"

subsection \<open>Auxiliary definitions for the statements\<close>

text \<open>
  The four events that \<open>sendInstruction_ST7920\<close> appends for an instruction: its three
  byte transfers and the settle delay, read off a run from the start state.
\<close>

definition transaction :: "short \<Rightarrow> event list" where
  "transaction instruction = bus (sendInstruction_ST7920 instruction startup)"

text \<open>
  The display-control instruction that \<open>initialize_ST7920\<close> (lines 106 to 109) and
  \<open>setDisplayStatus_ST7920\<close> (lines 130 and 144 to 146) both compute from the three
  flags: the base opcode with one bit OR'd in for each flag that is true.
\<close>

definition displayControl :: "driver \<Rightarrow> short" where
  "displayControl s =
     (let displayControl0 = (0b0000001000 :: short);
          displayControl1 = (if displayStatus_ST7920 s then displayControl0 OR 0b0000000100 else displayControl0);
          displayControl2 = (if underlineCursorStatus_ST7920 s then displayControl1 OR 0b0000000010 else displayControl1)
      in if blinkCursorStatus_ST7920 s then displayControl2 OR 0b0000000001 else displayControl2)"

text \<open>
  For the statements about \<open>printHalfCharacters_ST7920\<close>: what the loop sends for a run
  of characters when it meets no row boundary, one write-data instruction per character
  (line 161), and never a \<open>setCursor_ST7920\<close>.
\<close>

definition writeCharacters :: "string \<Rightarrow> driver \<Rightarrow> driver" where
  "writeCharacters cs s =
     fold (\<lambda>c. sendInstruction_ST7920 (0b1000000000 OR scast (of_char c :: byte))) cs s"

text \<open>
  The body of the loop (lines 159 to 161) as a function of the running position and the
  character, and its iteration along a list of characters, the position advancing by one.
\<close>

definition printHalfCharacters_body :: "byte \<Rightarrow> char \<Rightarrow> driver \<Rightarrow> driver" where
  "printHalfCharacters_body position c s =
     (let s1 = (if position = 16 \<or> position = 32 \<or> position = 48
                then setCursor_ST7920 (position div 2) s else s)
      in sendInstruction_ST7920 (0b1000000000 OR scast (of_char c :: byte)) s1)"

fun printHalfCharacters_run :: "byte \<Rightarrow> string \<Rightarrow> driver \<Rightarrow> driver" where
  "printHalfCharacters_run position [] s = s"
| "printHalfCharacters_run position (c # cs) s =
     printHalfCharacters_run (position + 1) cs (printHalfCharacters_body position c s)"

section \<open>Properties\<close>

subsection \<open>The encoder\<close>

lemma transaction_bytes:
  "transaction instruction =
     [Transfer (ucast ((signed_drop_bit 8 instruction AND 2) OR (signed_drop_bit 6 instruction AND 4) OR 248)),
      Transfer (ucast (instruction AND 240)),
      Transfer (ucast (push_bit 4 instruction AND 240)),
      DelayMicroseconds 80]"
  by (simp add: transaction_def sendInstruction_ST7920_def SPI_transfer_def delayMicroseconds_def startup_def)

lemma sendInstruction_eq:
  "sendInstruction_ST7920 instruction s = s\<lparr>bus := bus s @ transaction instruction\<rparr>"
  by (simp add: transaction_bytes sendInstruction_ST7920_def SPI_transfer_def delayMicroseconds_def)

lemma sendInstruction_bus:
  "bus (sendInstruction_ST7920 instruction s) = bus s @ transaction instruction"
  by (simp add: sendInstruction_eq)

lemma sendInstruction_fields:
  "instructionSet_ST7920 (sendInstruction_ST7920 instruction s) = instructionSet_ST7920 s"
  "displayStatus_ST7920 (sendInstruction_ST7920 instruction s) = displayStatus_ST7920 s"
  "underlineCursorStatus_ST7920 (sendInstruction_ST7920 instruction s) = underlineCursorStatus_ST7920 s"
  "blinkCursorStatus_ST7920 (sendInstruction_ST7920 instruction s) = blinkCursorStatus_ST7920 s"
  by (simp_all add: sendInstruction_eq)

text \<open>
  C1 (as amended). For every instruction, the first byte transferred by
  \<open>sendInstruction_ST7920\<close> has its five high bits set and its low bit clear, its bit 2
  is logical bit 8 (RW) and its bit 1 is logical bit 9 (RS). The theorem holds for every
  16-bit argument, so for every 10-bit instruction.
\<close>

theorem sendInstruction_first_byte:
  "\<exists>b1 b2 b3.
     bus (sendInstruction_ST7920 instruction s) =
       bus s @ [Transfer b1, Transfer b2, Transfer b3, DelayMicroseconds 80] \<and>
     bit b1 7 \<and> bit b1 6 \<and> bit b1 5 \<and> bit b1 4 \<and> bit b1 3 \<and>
     bit b1 2 = bit instruction 8 \<and>
     bit b1 1 = bit instruction 9 \<and>
     \<not> bit b1 0"
  by (simp add: sendInstruction_bus transaction_bytes bit_simps)

text \<open>
  C1 as the claim states it fails: for the write-data opcode \<open>0b1000000000\<close> logical
  bit 9 is set and logical bit 8 is clear, and the first byte is \<open>0b11111010\<close>, whose
  bit 2 is clear and whose bit 1 is set. Bit 2 is not sourced from logical bit 9.
\<close>

theorem sendInstruction_first_byte_not_as_claimed:
  "bus (sendInstruction_ST7920 0b1000000000 startup) =
     [Transfer 0b11111010, Transfer 0b00000000, Transfer 0b00000000, DelayMicroseconds 80] \<and>
   bit (0b1000000000 :: short) 9 \<and> \<not> bit (0b11111010 :: byte) 2 \<and>
   \<not> bit (0b1000000000 :: short) 8 \<and> bit (0b11111010 :: byte) 1"
  by (simp add: sendInstruction_bus transaction_bytes startup_def)

text \<open>
  C2 (as amended). The basic function-set instruction \<open>0b0000110000\<close> is transferred
  as the three bytes \<open>0b11111000\<close>, \<open>0b00110000\<close>, \<open>0b00000000\<close>, in that order, followed
  by the 80 microsecond delay: the second byte carries DB7 to DB4, which are \<open>0011\<close>.
\<close>

theorem sendInstruction_function_set:
  "bus (sendInstruction_ST7920 0b0000110000 s) =
     bus s @ [Transfer 0b11111000, Transfer 0b00110000, Transfer 0b00000000, DelayMicroseconds 80]"
  by (simp add: sendInstruction_bus transaction_bytes)

text \<open>
  C2 as the claim states it fails: from the start state the second byte transferred
  is \<open>0b00110000\<close>, not \<open>0b00000000\<close>.
\<close>

theorem sendInstruction_function_set_not_as_claimed:
  "bus (sendInstruction_ST7920 0b0000110000 startup) =
     [Transfer 0b11111000, Transfer 0b00110000, Transfer 0b00000000, DelayMicroseconds 80] \<and>
   (0b00110000 :: byte) \<noteq> 0b00000000"
  by (simp add: sendInstruction_bus transaction_bytes startup_def)

text \<open>The framing loses nothing of a 10-bit instruction: the bytes determine it.\<close>

lemma nat_less_10_cases:
  "(k::nat) < 10 \<Longrightarrow> k \<in> {9, 8, 7, 6, 5, 4, 3, 2, 1, 0}"
  by auto

lemma high_bits_clear:
  fixes i :: short
  assumes "i < 1024" "10 \<le> n"
  shows "\<not> bit i n"
proof -
  have "take_bit 10 i = i"
    using assms(1) less_mask_eq[of i 10] by (simp add: take_bit_eq_mask)
  then have "bit i n = bit (take_bit 10 i) n" by simp
  also have "\<dots> = False" using assms(2) by (simp add: bit_take_bit_iff)
  finally show ?thesis by simp
qed

lemma transaction_bits:
  assumes "transaction i = transaction j" "n < 10"
  shows "bit i n = bit j n"
proof -
  from assms(1) have
    b1: "(ucast ((signed_drop_bit 8 i AND 2) OR (signed_drop_bit 6 i AND 4) OR 248) :: byte) =
         ucast ((signed_drop_bit 8 j AND 2) OR (signed_drop_bit 6 j AND 4) OR 248)"
    and b2: "(ucast (i AND 240) :: byte) = ucast (j AND 240)"
    and b3: "(ucast (push_bit 4 i AND 240) :: byte) = ucast (push_bit 4 j AND 240)"
    by (simp_all add: transaction_bytes)
  have "bit i 0 = bit j 0" using arg_cong[OF b3, of "\<lambda>w. bit w 4"] by (simp add: bit_simps)
  moreover have "bit i 1 = bit j 1" using arg_cong[OF b3, of "\<lambda>w. bit w 5"] by (simp add: bit_simps)
  moreover have "bit i 2 = bit j 2" using arg_cong[OF b3, of "\<lambda>w. bit w 6"] by (simp add: bit_simps)
  moreover have "bit i 3 = bit j 3" using arg_cong[OF b3, of "\<lambda>w. bit w 7"] by (simp add: bit_simps)
  moreover have "bit i 4 = bit j 4" using arg_cong[OF b2, of "\<lambda>w. bit w 4"] by (simp add: bit_simps)
  moreover have "bit i 5 = bit j 5" using arg_cong[OF b2, of "\<lambda>w. bit w 5"] by (simp add: bit_simps)
  moreover have "bit i 6 = bit j 6" using arg_cong[OF b2, of "\<lambda>w. bit w 6"] by (simp add: bit_simps)
  moreover have "bit i 7 = bit j 7" using arg_cong[OF b2, of "\<lambda>w. bit w 7"] by (simp add: bit_simps)
  moreover have "bit i 8 = bit j 8" using arg_cong[OF b1, of "\<lambda>w. bit w 2"] by (simp add: bit_simps)
  moreover have "bit i 9 = bit j 9" using arg_cong[OF b1, of "\<lambda>w. bit w 1"] by (simp add: bit_simps)
  ultimately show ?thesis using nat_less_10_cases[OF assms(2)] by auto
qed

lemma transaction_inj:
  assumes "i < 1024" "j < 1024" "transaction i = transaction j"
  shows "i = j"
proof (rule bit_word_eqI)
  fix n
  show "bit i n = bit j n"
  proof (cases "n < 10")
    case True
    then show ?thesis using assms(3) by (rule transaction_bits[rotated])
  next
    case False
    then show ?thesis using assms(1,2) by (simp add: high_bits_clear)
  qed
qed

subsection \<open>The addressing translator\<close>

lemma opcode_or_address:
  fixes a :: short
  assumes "a \<le> 31"
  shows "0b0010000000 OR a = 128 + a"
proof -
  have "a < 2 ^ 5" using assms by unat_arith
  then have "a AND mask 5 = a" by (rule less_mask_eq)
  then have "a = 31 AND a" by (simp add: mask_eq_exp_minus_1 and.commute)
  then have "128 AND a = 128 AND (31 AND a)" by simp
  also have "\<dots> = 0" by (simp flip: and.assoc)
  finally have "128 AND a = 0" .
  then show ?thesis by (simp add: disjunctive_add_eq_or)
qed

lemma of_nat_short_le: "k \<le> 31 \<Longrightarrow> (of_nat k :: short) \<le> 31"
  by (simp add: word_le_nat_alt unat_of_nat)

lemma of_nat_short_less: "n < 1024 \<Longrightarrow> (of_nat n :: short) < 1024"
  by (simp add: word_less_nat_alt unat_of_nat)

lemma of_nat_short_inj:
  assumes "(of_nat m :: short) = of_nat n" "m < 1024" "n < 1024"
  shows "m = n"
proof -
  have "unat (of_nat m :: short) = unat (of_nat n :: short)" using assms(1) by simp
  then show ?thesis using assms(2,3) by (simp add: unat_of_nat)
qed

lemma opcode_or_of_nat:
  assumes "k \<le> 31"
  shows "(0b0010000000 :: short) OR of_nat k = of_nat (128 + k)"
proof -
  have "(0b0010000000 :: short) OR of_nat k = 128 + of_nat k"
    using assms by (intro opcode_or_address of_nat_short_le)
  then show ?thesis by simp
qed

lemma setCursor_unchanged:
  assumes "p \<le> 7 \<or> (24 \<le> p \<and> p \<le> 31)"
  shows "setCursor_ST7920 p s = sendInstruction_ST7920 (0b0010000000 OR of_nat (unat p)) s"
  using assms by (auto simp add: setCursor_ST7920_def)

lemma setCursor_plus8:
  assumes "8 \<le> p" "p \<le> 15"
  shows "setCursor_ST7920 p s = sendInstruction_ST7920 (0b0010000000 OR of_nat (unat p + 8)) s"
proof -
  have "\<not> p \<le> 7" "\<not> 24 \<le> p" using assms by unat_arith+
  then show ?thesis using assms by (simp add: setCursor_ST7920_def)
qed

lemma setCursor_minus8:
  assumes "16 \<le> p" "p \<le> 23"
  shows "setCursor_ST7920 p s = sendInstruction_ST7920 (0b0010000000 OR of_nat (unat p - 8)) s"
proof -
  have "\<not> p \<le> 7" "\<not> 24 \<le> p" "\<not> p \<le> 15" using assms by unat_arith+
  moreover have "8 \<le> unat p" using assms by unat_arith
  then have "(of_nat (unat p - 8) :: short) = ucast p - 8" by (simp add: of_nat_diff)
  ultimately show ?thesis using assms by (simp add: setCursor_ST7920_def)
qed

lemma setCursor_beyond_31:
  assumes "32 \<le> p"
  shows "setCursor_ST7920 p s = s"
proof -
  have "\<not> p \<le> 7" "\<not> p \<le> 31" "\<not> p \<le> 15" "\<not> p \<le> 23" using assms by unat_arith+
  then show ?thesis by (simp add: setCursor_ST7920_def)
qed

lemma setCursor_in_range:
  assumes "p \<le> 31"
  shows "setCursor_ST7920 p s =
         sendInstruction_ST7920
           (of_nat (128 + (if unat p \<le> 7 \<or> 24 \<le> unat p then unat p
                           else if unat p \<le> 15 then unat p + 8 else unat p - 8))) s"
proof -
  have le: "unat p \<le> 31" using assms by unat_arith
  consider "p \<le> 7 \<or> (24 \<le> p \<and> p \<le> 31)" | "8 \<le> p \<and> p \<le> 15" | "16 \<le> p \<and> p \<le> 23"
    using assms by unat_arith
  then show ?thesis
  proof cases
    case 1
    then have c: "unat p \<le> 7 \<or> 24 \<le> unat p" by unat_arith
    have "setCursor_ST7920 p s = sendInstruction_ST7920 (of_nat (128 + unat p)) s"
      using le by (simp only: setCursor_unchanged[OF 1] opcode_or_of_nat)
    then show ?thesis using c by (simp only: if_True)
  next
    case 2
    then have c: "\<not> (unat p \<le> 7 \<or> 24 \<le> unat p)" "unat p \<le> 15" by unat_arith+
    then have "unat p + 8 \<le> 31" by simp
    then have "setCursor_ST7920 p s = sendInstruction_ST7920 (of_nat (128 + (unat p + 8))) s"
      using 2 by (simp only: setCursor_plus8 opcode_or_of_nat)
    then show ?thesis using c by (simp only: if_True if_False)
  next
    case 3
    then have c: "\<not> (unat p \<le> 7 \<or> 24 \<le> unat p)" "\<not> unat p \<le> 15" by unat_arith+
    have "unat p - 8 \<le> 31" using le by simp
    then have "setCursor_ST7920 p s = sendInstruction_ST7920 (of_nat (128 + (unat p - 8))) s"
      using 3 by (simp only: setCursor_minus8 opcode_or_of_nat)
    then show ?thesis using c by (simp only: if_True if_False)
  qed
qed

text \<open>The bytes of a set-DDRAM-address instruction for an address up to 31.\<close>

lemma address_transaction_all:
  "\<forall>a \<in> set [0..<32]. transaction (0b0010000000 OR of_nat a) =
     [Transfer 0b11111000, Transfer (of_nat (128 + 16 * (a div 16))),
      Transfer (of_nat (16 * (a mod 16))), DelayMicroseconds 80]"
  by (simp add: transaction_bytes upt_rec)

lemma address_transaction:
  assumes "a \<le> 31"
  shows "transaction (0b0010000000 OR of_nat a) =
     [Transfer 0b11111000, Transfer (of_nat (128 + 16 * (a div 16))),
      Transfer (of_nat (16 * (a mod 16))), DelayMicroseconds 80]"
proof -
  have "a \<in> set [0..<32]" using assms by simp
  then show ?thesis using address_transaction_all by blast
qed


lemma setCursor_bus:
  assumes "setCursor_ST7920 p s = sendInstruction_ST7920 (0b0010000000 OR of_nat a) s" "a \<le> 31"
  shows "bus (setCursor_ST7920 p s) =
     bus s @ [Transfer 0b11111000, Transfer (of_nat (128 + 16 * (a div 16))),
              Transfer (of_nat (16 * (a mod 16))), DelayMicroseconds 80]"
  using assms(2) by (simp only: assms(1) sendInstruction_bus address_transaction)


text \<open>
  C3. For a logical position in [0,7] or [24,31] \<open>setCursor_ST7920\<close> sends the
  set-DDRAM-address opcode \<open>0b0010000000\<close> combined with the position itself; for a
  position in [8,15], with the position plus 8; for a position in [16,23], with the
  position minus 8. The address is written as a natural number, so nothing wraps. On
  the bus this is one transaction of three bytes and the settle delay: \<open>0b11111000\<close>,
  then \<open>1000\<close> in DB7 to DB4 with bit 4 of the address added, then the low four bits
  of the address in the high nibble.
\<close>

theorem setCursor_physical_address:
  "(position \<le> 7 \<or> (24 \<le> position \<and> position \<le> 31) \<longrightarrow>
      setCursor_ST7920 position s =
        sendInstruction_ST7920 (0b0010000000 OR of_nat (unat position)) s \<and>
      bus (setCursor_ST7920 position s) =
        bus s @ [Transfer 0b11111000,
                 Transfer (of_nat (128 + 16 * (unat position div 16))),
                 Transfer (of_nat (16 * (unat position mod 16))),
                 DelayMicroseconds 80]) \<and>
   (8 \<le> position \<and> position \<le> 15 \<longrightarrow>
      setCursor_ST7920 position s =
        sendInstruction_ST7920 (0b0010000000 OR of_nat (unat position + 8)) s \<and>
      bus (setCursor_ST7920 position s) =
        bus s @ [Transfer 0b11111000,
                 Transfer (of_nat (128 + 16 * ((unat position + 8) div 16))),
                 Transfer (of_nat (16 * ((unat position + 8) mod 16))),
                 DelayMicroseconds 80]) \<and>
   (16 \<le> position \<and> position \<le> 23 \<longrightarrow>
      setCursor_ST7920 position s =
        sendInstruction_ST7920 (0b0010000000 OR of_nat (unat position - 8)) s \<and>
      bus (setCursor_ST7920 position s) =
        bus s @ [Transfer 0b11111000,
                 Transfer (of_nat (128 + 16 * ((unat position - 8) div 16))),
                 Transfer (of_nat (16 * ((unat position - 8) mod 16))),
                 DelayMicroseconds 80])"
proof (intro conjI impI)
  assume r: "position \<le> 7 \<or> (24 \<le> position \<and> position \<le> 31)"
  then have a: "unat position \<le> 31" by unat_arith
  show e: "setCursor_ST7920 position s =
        sendInstruction_ST7920 (0b0010000000 OR of_nat (unat position)) s"
    using r by (rule setCursor_unchanged)
  show "bus (setCursor_ST7920 position s) =
        bus s @ [Transfer 0b11111000,
                 Transfer (of_nat (128 + 16 * (unat position div 16))),
                 Transfer (of_nat (16 * (unat position mod 16))),
                 DelayMicroseconds 80]"
    using e a by (rule setCursor_bus)
next
  assume r: "8 \<le> position \<and> position \<le> 15"
  then have a: "unat position + 8 \<le> 31" by unat_arith
  show e: "setCursor_ST7920 position s =
        sendInstruction_ST7920 (0b0010000000 OR of_nat (unat position + 8)) s"
    using r by (intro setCursor_plus8) auto
  show "bus (setCursor_ST7920 position s) =
        bus s @ [Transfer 0b11111000,
                 Transfer (of_nat (128 + 16 * ((unat position + 8) div 16))),
                 Transfer (of_nat (16 * ((unat position + 8) mod 16))),
                 DelayMicroseconds 80]"
    using e a by (rule setCursor_bus)
next
  assume r: "16 \<le> position \<and> position \<le> 23"
  then have a: "unat position - 8 \<le> 31" by unat_arith
  show e: "setCursor_ST7920 position s =
        sendInstruction_ST7920 (0b0010000000 OR of_nat (unat position - 8)) s"
    using r by (intro setCursor_minus8) auto
  show "bus (setCursor_ST7920 position s) =
        bus s @ [Transfer 0b11111000,
                 Transfer (of_nat (128 + 16 * ((unat position - 8) div 16))),
                 Transfer (of_nat (16 * ((unat position - 8) mod 16))),
                 DelayMicroseconds 80]"
    using e a by (rule setCursor_bus)
qed

theorem setCursor_physical_address_witness:
  "bus (setCursor_ST7920 3 startup) =
     [Transfer 0b11111000, Transfer 0b10000000, Transfer 0b00110000, DelayMicroseconds 80] \<and>
   bus (setCursor_ST7920 27 startup) =
     [Transfer 0b11111000, Transfer 0b10010000, Transfer 0b10110000, DelayMicroseconds 80] \<and>
   bus (setCursor_ST7920 10 startup) =
     [Transfer 0b11111000, Transfer 0b10010000, Transfer 0b00100000, DelayMicroseconds 80] \<and>
   bus (setCursor_ST7920 20 startup) =
     [Transfer 0b11111000, Transfer 0b10000000, Transfer 0b11000000, DelayMicroseconds 80] \<and>
   setCursor_ST7920 3 startup = sendInstruction_ST7920 0b0010000011 startup \<and>
   setCursor_ST7920 27 startup = sendInstruction_ST7920 0b0010011011 startup \<and>
   setCursor_ST7920 10 startup = sendInstruction_ST7920 0b0010010010 startup \<and>
   setCursor_ST7920 20 startup = sendInstruction_ST7920 0b0010001100 startup"
proof -
  have e: "bus startup = []" by (simp add: startup_def)
  note t3 = setCursor_physical_address[of 3 startup, THEN conjunct1, THEN mp]
  have r3: "setCursor_ST7920 3 startup = sendInstruction_ST7920 (0b0010000000 OR of_nat (unat (3 :: byte))) startup \<and>
      bus (setCursor_ST7920 3 startup) =
        bus startup @ [Transfer 0b11111000, Transfer (of_nat (128 + 16 * ((unat (3 :: byte)) div 16))),
                       Transfer (of_nat (16 * ((unat (3 :: byte)) mod 16))), DelayMicroseconds 80]"
    by (rule t3) simp
  have "setCursor_ST7920 3 startup = sendInstruction_ST7920 0b0010000011 startup"
    using r3[THEN conjunct1] by simp
  moreover have "bus (setCursor_ST7920 3 startup) =
        [Transfer 0b11111000, Transfer 0b10000000, Transfer 0b00110000, DelayMicroseconds 80]"
    using r3[THEN conjunct2] by (simp add: e)
  moreover
  note t27 = setCursor_physical_address[of 27 startup, THEN conjunct1, THEN mp]
  have r27: "setCursor_ST7920 27 startup = sendInstruction_ST7920 (0b0010000000 OR of_nat (unat (27 :: byte))) startup \<and>
      bus (setCursor_ST7920 27 startup) =
        bus startup @ [Transfer 0b11111000, Transfer (of_nat (128 + 16 * ((unat (27 :: byte)) div 16))),
                       Transfer (of_nat (16 * ((unat (27 :: byte)) mod 16))), DelayMicroseconds 80]"
    by (rule t27) simp
  have "setCursor_ST7920 27 startup = sendInstruction_ST7920 0b0010011011 startup"
    using r27[THEN conjunct1] by simp
  moreover have "bus (setCursor_ST7920 27 startup) =
        [Transfer 0b11111000, Transfer 0b10010000, Transfer 0b10110000, DelayMicroseconds 80]"
    using r27[THEN conjunct2] by (simp add: e)
  moreover
  note t10 = setCursor_physical_address[of 10 startup, THEN conjunct2, THEN conjunct1, THEN mp]
  have r10: "setCursor_ST7920 10 startup = sendInstruction_ST7920 (0b0010000000 OR of_nat (unat (10 :: byte) + 8)) startup \<and>
      bus (setCursor_ST7920 10 startup) =
        bus startup @ [Transfer 0b11111000, Transfer (of_nat (128 + 16 * ((unat (10 :: byte) + 8) div 16))),
                       Transfer (of_nat (16 * ((unat (10 :: byte) + 8) mod 16))), DelayMicroseconds 80]"
    by (rule t10) simp
  have "setCursor_ST7920 10 startup = sendInstruction_ST7920 0b0010010010 startup"
    using r10[THEN conjunct1] by simp
  moreover have "bus (setCursor_ST7920 10 startup) =
        [Transfer 0b11111000, Transfer 0b10010000, Transfer 0b00100000, DelayMicroseconds 80]"
    using r10[THEN conjunct2] by (simp add: e)
  moreover
  note t20 = setCursor_physical_address[of 20 startup, THEN conjunct2, THEN conjunct2, THEN mp]
  have r20: "setCursor_ST7920 20 startup = sendInstruction_ST7920 (0b0010000000 OR of_nat (unat (20 :: byte) - 8)) startup \<and>
      bus (setCursor_ST7920 20 startup) =
        bus startup @ [Transfer 0b11111000, Transfer (of_nat (128 + 16 * ((unat (20 :: byte) - 8) div 16))),
                       Transfer (of_nat (16 * ((unat (20 :: byte) - 8) mod 16))), DelayMicroseconds 80]"
    by (rule t20) simp
  have "setCursor_ST7920 20 startup = sendInstruction_ST7920 0b0010001100 startup"
    using r20[THEN conjunct1] by simp
  moreover have "bus (setCursor_ST7920 20 startup) =
        [Transfer 0b11111000, Transfer 0b10000000, Transfer 0b11000000, DelayMicroseconds 80]"
    using r20[THEN conjunct2] by (simp add: e)
  ultimately show ?thesis by blast
qed


text \<open>
  C4. Over the logical positions 0 to 31 the mapping is injective and stays within
  [0,31]: two positions \<open>p\<close> and \<open>q\<close> make \<open>setCursor_ST7920\<close> send the opcode combined
  with addresses \<open>a\<close> and \<open>b\<close> that are at most 31 and are equal only when \<open>p = q\<close>; and
  on the bus itself, the bytes transferred for \<open>p\<close> and for \<open>q\<close> are the same only when
  \<open>p = q\<close>.
\<close>

theorem setCursor_injective:
  assumes "p \<le> 31" and "q \<le> 31"
  shows "(\<exists>a b. a \<le> 31 \<and> b \<le> 31 \<and>
            setCursor_ST7920 p s = sendInstruction_ST7920 (0b0010000000 OR a) s \<and>
            setCursor_ST7920 q s = sendInstruction_ST7920 (0b0010000000 OR b) s \<and>
            (a = b \<longrightarrow> p = q)) \<and>
         (bus (setCursor_ST7920 p s) = bus (setCursor_ST7920 q s) \<longrightarrow> p = q)"
proof -
  define g where "g = (\<lambda>n::nat. if n \<le> 7 \<or> 24 \<le> n then n else if n \<le> 15 then n + 8 else n - 8)"
  have lp: "unat p \<le> 31" and lq: "unat q \<le> 31" using assms by unat_arith+
  have gp: "g (unat p) \<le> 31" and gq: "g (unat q) \<le> 31" using lp lq by (auto simp: g_def)
  have g_inj: "unat p = unat q" if "g (unat p) = g (unat q)"
    using that lp lq by (auto simp: g_def split: if_splits)
  have sp: "setCursor_ST7920 p s = sendInstruction_ST7920 (of_nat (128 + g (unat p))) s"
    and sq: "setCursor_ST7920 q s = sendInstruction_ST7920 (of_nat (128 + g (unat q))) s"
    using assms by (simp_all only: setCursor_in_range g_def)
  have op: "(0b0010000000 :: short) OR of_nat (g (unat p)) = of_nat (128 + g (unat p))"
    "(0b0010000000 :: short) OR of_nat (g (unat q)) = of_nat (128 + g (unat q))"
    using gp gq by (simp_all only: opcode_or_of_nat)
  have first: "\<exists>a b. a \<le> 31 \<and> b \<le> 31 \<and>
            setCursor_ST7920 p s = sendInstruction_ST7920 (0b0010000000 OR a) s \<and>
            setCursor_ST7920 q s = sendInstruction_ST7920 (0b0010000000 OR b) s \<and>
            (a = b \<longrightarrow> p = q)"
  proof (intro exI conjI impI)
    show "(of_nat (g (unat p)) :: short) \<le> 31" using gp by (rule of_nat_short_le)
    show "(of_nat (g (unat q)) :: short) \<le> 31" using gq by (rule of_nat_short_le)
    show "setCursor_ST7920 p s = sendInstruction_ST7920 (0b0010000000 OR of_nat (g (unat p))) s"
      by (simp only: sp op)
    show "setCursor_ST7920 q s = sendInstruction_ST7920 (0b0010000000 OR of_nat (g (unat q))) s"
      by (simp only: sq op)
    assume "(of_nat (g (unat p)) :: short) = of_nat (g (unat q))"
    then have "g (unat p) = g (unat q)" using gp gq by (intro of_nat_short_inj) auto
    then show "p = q" using g_inj by (simp add: word_unat_eq_iff)
  qed
  have second: "p = q" if "bus (setCursor_ST7920 p s) = bus (setCursor_ST7920 q s)"
  proof -
    from that have "transaction (of_nat (128 + g (unat p))) = transaction (of_nat (128 + g (unat q)))"
      by (simp add: sp sq sendInstruction_eq)
    moreover have "(of_nat (128 + g (unat p)) :: short) < 1024" "(of_nat (128 + g (unat q)) :: short) < 1024"
      using gp gq by (intro of_nat_short_less, simp)+
    ultimately have "(of_nat (128 + g (unat p)) :: short) = of_nat (128 + g (unat q))"
      by (intro transaction_inj)
    then have "128 + g (unat p) = 128 + g (unat q)" using gp gq by (intro of_nat_short_inj) auto
    then show "p = q" using g_inj by (simp add: word_unat_eq_iff)
  qed
  from first second show ?thesis by blast
qed

theorem setCursor_injective_witness:
  "(8 :: byte) \<le> 31 \<and> (16 :: byte) \<le> 31 \<and>
   bus (setCursor_ST7920 8 startup) \<noteq> bus (setCursor_ST7920 16 startup)"
  using setCursor_injective[of 8 16 startup] by simp

text \<open>
  C9. For every position of 32 or more (up to 255, the largest byte) no branch of
  \<open>setCursor_ST7920\<close> matches: the state after the call is the state before it, so no
  instruction is sent, no byte is transferred and no variable changes.
\<close>

theorem setCursor_out_of_range_noop:
  "32 \<le> position \<Longrightarrow> setCursor_ST7920 position s = s"
  by (rule setCursor_beyond_31)

theorem setCursor_out_of_range_noop_witness:
  "(32 :: byte) \<le> 32 \<and> setCursor_ST7920 32 startup = startup \<and>
   (32 :: byte) \<le> 255 \<and> setCursor_ST7920 255 startup = startup"
  using setCursor_out_of_range_noop[of 32 startup] setCursor_out_of_range_noop[of 255 startup]
  by simp

subsection \<open>The mode tracker\<close>

lemma chooseInstructionSet_fields:
  "displayStatus_ST7920 (chooseInstructionSet_ST7920 c s) = displayStatus_ST7920 s"
  "underlineCursorStatus_ST7920 (chooseInstructionSet_ST7920 c s) = underlineCursorStatus_ST7920 s"
  "blinkCursorStatus_ST7920 (chooseInstructionSet_ST7920 c s) = blinkCursorStatus_ST7920 s"
  by (simp_all add: chooseInstructionSet_ST7920_def sendInstruction_fields)

lemma chooseInstructionSet_Basic_from_Extended:
  "instructionSet_ST7920 s = CHR ''E'' \<Longrightarrow>
   chooseInstructionSet_ST7920 (CHR ''B'') s =
     sendInstruction_ST7920 0b0000110000 (s\<lparr>instructionSet_ST7920 := CHR ''B''\<rparr>)"
  by (simp add: chooseInstructionSet_ST7920_def)

lemma chooseInstructionSet_Basic_otherwise:
  "instructionSet_ST7920 s \<noteq> CHR ''E'' \<Longrightarrow> chooseInstructionSet_ST7920 (CHR ''B'') s = s"
  by (simp add: chooseInstructionSet_ST7920_def)

lemma chooseInstructionSet_Basic_idem:
  "chooseInstructionSet_ST7920 (CHR ''B'') (chooseInstructionSet_ST7920 (CHR ''B'') s) =
   chooseInstructionSet_ST7920 (CHR ''B'') s"
  by (simp add: chooseInstructionSet_ST7920_def sendInstruction_fields)

text \<open>
  C5 (as amended). Two calls in a row with target Basic never send two switch
  instructions. The second call changes nothing. When the tracked mode was Extended, the
  two calls together put exactly one instruction on the bus, the switch to Basic
  \<open>0b0000110000\<close>, and the tracked mode becomes Basic. When the tracked mode already
  was Basic, a call is a no-op: nothing is sent and the state is unchanged.
\<close>

theorem chooseInstructionSet_Basic_twice:
  "chooseInstructionSet_ST7920 (CHR ''B'') (chooseInstructionSet_ST7920 (CHR ''B'') s) =
     chooseInstructionSet_ST7920 (CHR ''B'') s \<and>
   (instructionSet_ST7920 s = CHR ''E'' \<longrightarrow>
      bus (chooseInstructionSet_ST7920 (CHR ''B'') (chooseInstructionSet_ST7920 (CHR ''B'') s)) =
        bus s @ transaction 0b0000110000 \<and>
      instructionSet_ST7920 (chooseInstructionSet_ST7920 (CHR ''B'') s) = CHR ''B'') \<and>
   (instructionSet_ST7920 s = CHR ''B'' \<longrightarrow> chooseInstructionSet_ST7920 (CHR ''B'') s = s)"
  by (simp add: chooseInstructionSet_Basic_idem chooseInstructionSet_Basic_from_Extended
      chooseInstructionSet_Basic_otherwise sendInstruction_bus sendInstruction_fields)

theorem chooseInstructionSet_Basic_twice_witness:
  "bus (chooseInstructionSet_ST7920 (CHR ''B'') (chooseInstructionSet_ST7920 (CHR ''B'')
          (startup\<lparr>instructionSet_ST7920 := CHR ''E''\<rparr>))) =
     [Transfer 0b11111000, Transfer 0b00110000, Transfer 0b00000000, DelayMicroseconds 80] \<and>
   chooseInstructionSet_ST7920 (CHR ''B'') startup = startup"
proof -
  have "bus (chooseInstructionSet_ST7920 (CHR ''B'') (chooseInstructionSet_ST7920 (CHR ''B'')
          (startup\<lparr>instructionSet_ST7920 := CHR ''E''\<rparr>))) =
        bus (startup\<lparr>instructionSet_ST7920 := CHR ''E''\<rparr>) @ transaction 0b0000110000"
    using chooseInstructionSet_Basic_twice[of "startup\<lparr>instructionSet_ST7920 := CHR ''E''\<rparr>",
        THEN conjunct2, THEN conjunct1]
    by simp
  moreover have "chooseInstructionSet_ST7920 (CHR ''B'') startup = startup"
    using chooseInstructionSet_Basic_twice[of startup, THEN conjunct2, THEN conjunct2]
    by (simp add: startup_def)
  ultimately show ?thesis by (simp add: startup_def transaction_bytes)
qed

text \<open>
  C5 as the claim states it fails: from the start state, whose tracked mode is Basic,
  the two calls send nothing at all, not one switch instruction.
\<close>

theorem chooseInstructionSet_Basic_twice_from_Basic:
  "chooseInstructionSet_ST7920 (CHR ''B'') (chooseInstructionSet_ST7920 (CHR ''B'') startup) = startup \<and>
   instructionSet_ST7920 startup = CHR ''B'' \<and> bus startup = []"
  by (simp add: chooseInstructionSet_ST7920_def startup_def)

subsection \<open>The display state controller and the initialisation\<close>

lemma setDisplayStatus_D:
  "setDisplayStatus_ST7920 (CHR ''D'') status s =
     sendInstruction_ST7920 (displayControl (s\<lparr>displayStatus_ST7920 := status\<rparr>))
       (chooseInstructionSet_ST7920 (CHR ''B'') (s\<lparr>displayStatus_ST7920 := status\<rparr>))"
  by (simp add: setDisplayStatus_ST7920_def displayControl_def Let_def)

lemma setDisplayStatus_C:
  "setDisplayStatus_ST7920 (CHR ''C'') status s =
     sendInstruction_ST7920 (displayControl (s\<lparr>underlineCursorStatus_ST7920 := status\<rparr>))
       (chooseInstructionSet_ST7920 (CHR ''B'') (s\<lparr>underlineCursorStatus_ST7920 := status\<rparr>))"
  by (simp add: setDisplayStatus_ST7920_def displayControl_def Let_def)

lemma setDisplayStatus_B:
  "setDisplayStatus_ST7920 (CHR ''B'') status s =
     sendInstruction_ST7920 (displayControl (s\<lparr>blinkCursorStatus_ST7920 := status\<rparr>))
       (chooseInstructionSet_ST7920 (CHR ''B'') (s\<lparr>blinkCursorStatus_ST7920 := status\<rparr>))"
  by (simp add: setDisplayStatus_ST7920_def displayControl_def Let_def)

lemma setDisplayStatus_other:
  "option \<noteq> CHR ''D'' \<Longrightarrow> option \<noteq> CHR ''C'' \<Longrightarrow> option \<noteq> CHR ''B'' \<Longrightarrow>
   setDisplayStatus_ST7920 option status s =
     sendInstruction_ST7920 (displayControl s) (chooseInstructionSet_ST7920 (CHR ''B'') s)"
  by (simp add: setDisplayStatus_ST7920_def displayControl_def Let_def)

lemma initialize_bus:
  "bus (initialize_ST7920 s) =
     bus s @ [Begin, BeginTransaction 600000 MSBFIRST SPI_MODE3] @
     transaction 0b0000110000 @ [DelayMicroseconds 20] @
     transaction (displayControl s) @ [DelayMicroseconds 20] @
     transaction 0b0000000001 @ [Delay 10] @
     transaction 0b0000000110"
  by (simp add: initialize_ST7920_def displayControl_def Let_def sendInstruction_eq
      SPI_begin_def SPI_beginTransaction_def delayMicroseconds_def delay_def)

lemma initialize_fields:
  "instructionSet_ST7920 (initialize_ST7920 s) = CHR ''B''"
  "displayStatus_ST7920 (initialize_ST7920 s) = displayStatus_ST7920 s"
  "underlineCursorStatus_ST7920 (initialize_ST7920 s) = underlineCursorStatus_ST7920 s"
  "blinkCursorStatus_ST7920 (initialize_ST7920 s) = blinkCursorStatus_ST7920 s"
  by (simp_all add: initialize_ST7920_def Let_def sendInstruction_eq
      SPI_begin_def SPI_beginTransaction_def delayMicroseconds_def delay_def)

lemma displayControl_bits:
  "bit (displayControl s) 3"
  "bit (displayControl s) 2 = displayStatus_ST7920 s"
  "bit (displayControl s) 1 = underlineCursorStatus_ST7920 s"
  "bit (displayControl s) 0 = blinkCursorStatus_ST7920 s"
  by (simp_all add: displayControl_def Let_def bit_simps)

lemma displayControl_cong:
  "displayControl (s\<lparr>bus := b\<rparr>) = displayControl s"
  "displayControl (s\<lparr>instructionSet_ST7920 := m\<rparr>) = displayControl s"
  by (simp_all add: displayControl_def)

lemma setDisplayStatus_flags_and_state:
  "setDisplayStatus_ST7920 (CHR ''D'') status s =
     sendInstruction_ST7920 (displayControl (s\<lparr>displayStatus_ST7920 := status\<rparr>))
       (chooseInstructionSet_ST7920 (CHR ''B'') (s\<lparr>displayStatus_ST7920 := status\<rparr>)) \<and>
   setDisplayStatus_ST7920 (CHR ''C'') status s =
     sendInstruction_ST7920 (displayControl (s\<lparr>underlineCursorStatus_ST7920 := status\<rparr>))
       (chooseInstructionSet_ST7920 (CHR ''B'') (s\<lparr>underlineCursorStatus_ST7920 := status\<rparr>)) \<and>
   setDisplayStatus_ST7920 (CHR ''B'') status s =
     sendInstruction_ST7920 (displayControl (s\<lparr>blinkCursorStatus_ST7920 := status\<rparr>))
       (chooseInstructionSet_ST7920 (CHR ''B'') (s\<lparr>blinkCursorStatus_ST7920 := status\<rparr>)) \<and>
   bit (displayControl s) 3 \<and>
   bit (displayControl s) 2 = displayStatus_ST7920 s \<and>
   bit (displayControl s) 1 = underlineCursorStatus_ST7920 s \<and>
   bit (displayControl s) 0 = blinkCursorStatus_ST7920 s \<and>
   displayStatus_ST7920 (setDisplayStatus_ST7920 (CHR ''D'') status s) = status \<and>
   underlineCursorStatus_ST7920 (setDisplayStatus_ST7920 (CHR ''D'') status s) = underlineCursorStatus_ST7920 s \<and>
   blinkCursorStatus_ST7920 (setDisplayStatus_ST7920 (CHR ''D'') status s) = blinkCursorStatus_ST7920 s \<and>
   displayStatus_ST7920 (setDisplayStatus_ST7920 (CHR ''C'') status s) = displayStatus_ST7920 s \<and>
   underlineCursorStatus_ST7920 (setDisplayStatus_ST7920 (CHR ''C'') status s) = status \<and>
   blinkCursorStatus_ST7920 (setDisplayStatus_ST7920 (CHR ''C'') status s) = blinkCursorStatus_ST7920 s \<and>
   displayStatus_ST7920 (setDisplayStatus_ST7920 (CHR ''B'') status s) = displayStatus_ST7920 s \<and>
   underlineCursorStatus_ST7920 (setDisplayStatus_ST7920 (CHR ''B'') status s) = underlineCursorStatus_ST7920 s \<and>
   blinkCursorStatus_ST7920 (setDisplayStatus_ST7920 (CHR ''B'') status s) = status \<and>
   (underlineCursorStatus_ST7920 s \<and> blinkCursorStatus_ST7920 s \<longrightarrow>
      (\<exists>s'. setDisplayStatus_ST7920 (CHR ''C'') True (setDisplayStatus_ST7920 (CHR ''D'') False s) =
              sendInstruction_ST7920 0b0000001011 s') \<and>
      \<not> displayStatus_ST7920
          (setDisplayStatus_ST7920 (CHR ''C'') True (setDisplayStatus_ST7920 (CHR ''D'') False s)) \<and>
      underlineCursorStatus_ST7920
          (setDisplayStatus_ST7920 (CHR ''C'') True (setDisplayStatus_ST7920 (CHR ''D'') False s)) \<and>
      blinkCursorStatus_ST7920
          (setDisplayStatus_ST7920 (CHR ''C'') True (setDisplayStatus_ST7920 (CHR ''D'') False s)))"
proof -
  have flags:
    "displayStatus_ST7920 (setDisplayStatus_ST7920 (CHR ''D'') status s) = status"
    "underlineCursorStatus_ST7920 (setDisplayStatus_ST7920 (CHR ''D'') status s) = underlineCursorStatus_ST7920 s"
    "blinkCursorStatus_ST7920 (setDisplayStatus_ST7920 (CHR ''D'') status s) = blinkCursorStatus_ST7920 s"
    "displayStatus_ST7920 (setDisplayStatus_ST7920 (CHR ''C'') status s) = displayStatus_ST7920 s"
    "underlineCursorStatus_ST7920 (setDisplayStatus_ST7920 (CHR ''C'') status s) = status"
    "blinkCursorStatus_ST7920 (setDisplayStatus_ST7920 (CHR ''C'') status s) = blinkCursorStatus_ST7920 s"
    "displayStatus_ST7920 (setDisplayStatus_ST7920 (CHR ''B'') status s) = displayStatus_ST7920 s"
    "underlineCursorStatus_ST7920 (setDisplayStatus_ST7920 (CHR ''B'') status s) = underlineCursorStatus_ST7920 s"
    "blinkCursorStatus_ST7920 (setDisplayStatus_ST7920 (CHR ''B'') status s) = status"
    by (simp_all add: setDisplayStatus_D setDisplayStatus_C setDisplayStatus_B
        sendInstruction_fields chooseInstructionSet_fields)
  have example:
    "(\<exists>s'. setDisplayStatus_ST7920 (CHR ''C'') True (setDisplayStatus_ST7920 (CHR ''D'') False s) =
              sendInstruction_ST7920 0b0000001011 s') \<and>
      \<not> displayStatus_ST7920
          (setDisplayStatus_ST7920 (CHR ''C'') True (setDisplayStatus_ST7920 (CHR ''D'') False s)) \<and>
      underlineCursorStatus_ST7920
          (setDisplayStatus_ST7920 (CHR ''C'') True (setDisplayStatus_ST7920 (CHR ''D'') False s)) \<and>
      blinkCursorStatus_ST7920
          (setDisplayStatus_ST7920 (CHR ''C'') True (setDisplayStatus_ST7920 (CHR ''D'') False s))"
    if on: "underlineCursorStatus_ST7920 s" "blinkCursorStatus_ST7920 s"
  proof -
    let ?r1 = "setDisplayStatus_ST7920 (CHR ''D'') False s"
    have r1: "\<not> displayStatus_ST7920 ?r1" "underlineCursorStatus_ST7920 ?r1" "blinkCursorStatus_ST7920 ?r1"
      using on by (simp_all add: setDisplayStatus_D sendInstruction_fields chooseInstructionSet_fields)
    have "displayControl (?r1\<lparr>underlineCursorStatus_ST7920 := True\<rparr>) = 0b0000001011"
      using r1 by (simp add: displayControl_def)
    then have "setDisplayStatus_ST7920 (CHR ''C'') True ?r1 =
        sendInstruction_ST7920 0b0000001011
          (chooseInstructionSet_ST7920 (CHR ''B'') (?r1\<lparr>underlineCursorStatus_ST7920 := True\<rparr>))"
      by (simp only: setDisplayStatus_C)
    moreover have "\<not> displayStatus_ST7920 (setDisplayStatus_ST7920 (CHR ''C'') True ?r1)"
      "underlineCursorStatus_ST7920 (setDisplayStatus_ST7920 (CHR ''C'') True ?r1)"
      "blinkCursorStatus_ST7920 (setDisplayStatus_ST7920 (CHR ''C'') True ?r1)"
      using r1 by (simp_all add: setDisplayStatus_C sendInstruction_fields chooseInstructionSet_fields)
    ultimately show ?thesis by blast
  qed
  show ?thesis
    using flags example
    by (simp only: setDisplayStatus_D setDisplayStatus_C setDisplayStatus_B displayControl_bits)
       simp
qed

lemma displayControl_transaction:
  "transaction (displayControl s) =
     [Transfer 0b11111000, Transfer 0b00000000,
      Transfer (0b10000000 OR (if displayStatus_ST7920 s then 0b01000000 else 0) OR
                (if underlineCursorStatus_ST7920 s then 0b00100000 else 0) OR
                (if blinkCursorStatus_ST7920 s then 0b00010000 else 0)),
      DelayMicroseconds 80]"
  by (simp add: displayControl_def transaction_bytes)

lemma setDisplayStatus_bus:
  "bus (setDisplayStatus_ST7920 option status s) =
     bus s @
     (if instructionSet_ST7920 s = CHR ''E''
      then [Transfer 0b11111000, Transfer 0b00110000, Transfer 0b00000000, DelayMicroseconds 80]
      else []) @
     [Transfer 0b11111000, Transfer 0b00000000,
      Transfer (0b10000000 OR
                (if displayStatus_ST7920 (setDisplayStatus_ST7920 option status s)
                 then 0b01000000 else 0) OR
                (if underlineCursorStatus_ST7920 (setDisplayStatus_ST7920 option status s)
                 then 0b00100000 else 0) OR
                (if blinkCursorStatus_ST7920 (setDisplayStatus_ST7920 option status s)
                 then 0b00010000 else 0)),
      DelayMicroseconds 80]"
proof -
  have sw: "transaction 0b0000110000 =
      [Transfer 0b11111000, Transfer 0b00110000, Transfer 0b00000000, DelayMicroseconds 80]"
    by (simp add: transaction_bytes)
  have cb: "bus (chooseInstructionSet_ST7920 (CHR ''B'') t) =
      bus t @ (if instructionSet_ST7920 t = CHR ''E'' then transaction 0b0000110000 else [])" for t
    by (simp add: chooseInstructionSet_Basic_from_Extended chooseInstructionSet_Basic_otherwise
        sendInstruction_bus)
  consider "option = CHR ''D''" | "option = CHR ''C''" | "option = CHR ''B''"
    | "option \<noteq> CHR ''D''" "option \<noteq> CHR ''C''" "option \<noteq> CHR ''B''" by blast
  then show ?thesis
  proof cases
    case 1
    then show ?thesis
      by (simp add: setDisplayStatus_D sendInstruction_bus sendInstruction_fields
          chooseInstructionSet_fields cb sw displayControl_transaction)
  next
    case 2
    then show ?thesis
      by (simp add: setDisplayStatus_C sendInstruction_bus sendInstruction_fields
          chooseInstructionSet_fields cb sw displayControl_transaction)
  next
    case 3
    then show ?thesis
      by (simp add: setDisplayStatus_B sendInstruction_bus sendInstruction_fields
          chooseInstructionSet_fields cb sw displayControl_transaction)
  next
    case 4
    then show ?thesis
      by (simp add: setDisplayStatus_other sendInstruction_bus sendInstruction_fields
          chooseInstructionSet_fields cb sw displayControl_transaction)
  qed
qed

lemma setDisplayStatus_mode:
  "instructionSet_ST7920 (setDisplayStatus_ST7920 option status s) \<noteq> CHR ''E''"
proof -
  have "instructionSet_ST7920 (chooseInstructionSet_ST7920 (CHR ''B'') t) \<noteq> CHR ''E''" for t
    by (simp add: chooseInstructionSet_ST7920_def sendInstruction_fields)
  then show ?thesis
    by (simp add: setDisplayStatus_ST7920_def Let_def sendInstruction_fields)
qed

lemma setDisplayStatus_example_bus:
  assumes "underlineCursorStatus_ST7920 s" "blinkCursorStatus_ST7920 s"
  shows "bus (setDisplayStatus_ST7920 (CHR ''C'') True (setDisplayStatus_ST7920 (CHR ''D'') False s)) =
        bus s @
        (if instructionSet_ST7920 s = CHR ''E''
         then [Transfer 0b11111000, Transfer 0b00110000, Transfer 0b00000000, DelayMicroseconds 80]
         else []) @
        [Transfer 0b11111000, Transfer 0b00000000, Transfer 0b10110000, DelayMicroseconds 80,
         Transfer 0b11111000, Transfer 0b00000000, Transfer 0b10110000, DelayMicroseconds 80]"
proof -
  let ?r1 = "setDisplayStatus_ST7920 (CHR ''D'') False s"
  let ?r2 = "setDisplayStatus_ST7920 (CHR ''C'') True ?r1"
  have f1: "\<not> displayStatus_ST7920 ?r1" "underlineCursorStatus_ST7920 ?r1" "blinkCursorStatus_ST7920 ?r1"
    using assms by (simp_all add: setDisplayStatus_D sendInstruction_fields chooseInstructionSet_fields)
  have f2: "\<not> displayStatus_ST7920 ?r2" "underlineCursorStatus_ST7920 ?r2" "blinkCursorStatus_ST7920 ?r2"
    using f1 by (simp_all add: setDisplayStatus_C sendInstruction_fields chooseInstructionSet_fields)
  have m1: "instructionSet_ST7920 ?r1 \<noteq> CHR ''E''" by (rule setDisplayStatus_mode)
  have b1: "bus ?r1 = bus s @
        (if instructionSet_ST7920 s = CHR ''E'' then [Transfer 0b11111000, Transfer 0b00110000, Transfer 0b00000000, DelayMicroseconds 80] else []) @
        [Transfer 0b11111000, Transfer 0b00000000, Transfer 0b10110000, DelayMicroseconds 80]"
    using f1 by (simp add: setDisplayStatus_bus[of "CHR ''D''" False s])
  have b2: "bus ?r2 = bus ?r1 @
        [Transfer 0b11111000, Transfer 0b00000000, Transfer 0b10110000, DelayMicroseconds 80]"
    using f2 m1 by (simp add: setDisplayStatus_bus[of "CHR ''C''" True ?r1])
  show ?thesis by (simp add: b2 b1)
qed


text \<open>
  C6. With option \<open>D\<close>, \<open>C\<close> or \<open>B\<close>, \<open>setDisplayStatus_ST7920\<close> sets that one flag,
  forces Basic mode and sends the display-control instruction of the three flags as
  they are after the update; in that instruction bit 2 is the display flag, bit 1 the
  underline-cursor flag and bit 0 the blink-cursor flag. The two other flags keep their
  values. On the bus the call appends the switch to Basic when the tracked mode was
  Extended, and then the three bytes of the display-control instruction, whose third
  byte carries the three flags in bits 6, 5 and 4, and the settle delay. In particular,
  when the underline and blink flags are true, switching the display off and then the
  underline cursor on ends with the instruction \<open>0b0000001011\<close> (display off, underline
  on, blink on), transferred as \<open>0b11111000\<close>, \<open>0b00000000\<close>, \<open>0b10110000\<close>, and with
  those flag values.
\<close>

theorem setDisplayStatus_one_flag:
  "setDisplayStatus_ST7920 (CHR ''D'') status s =
     sendInstruction_ST7920 (displayControl (s\<lparr>displayStatus_ST7920 := status\<rparr>))
       (chooseInstructionSet_ST7920 (CHR ''B'') (s\<lparr>displayStatus_ST7920 := status\<rparr>)) \<and>
   setDisplayStatus_ST7920 (CHR ''C'') status s =
     sendInstruction_ST7920 (displayControl (s\<lparr>underlineCursorStatus_ST7920 := status\<rparr>))
       (chooseInstructionSet_ST7920 (CHR ''B'') (s\<lparr>underlineCursorStatus_ST7920 := status\<rparr>)) \<and>
   setDisplayStatus_ST7920 (CHR ''B'') status s =
     sendInstruction_ST7920 (displayControl (s\<lparr>blinkCursorStatus_ST7920 := status\<rparr>))
       (chooseInstructionSet_ST7920 (CHR ''B'') (s\<lparr>blinkCursorStatus_ST7920 := status\<rparr>)) \<and>
   bit (displayControl s) 3 \<and>
   bit (displayControl s) 2 = displayStatus_ST7920 s \<and>
   bit (displayControl s) 1 = underlineCursorStatus_ST7920 s \<and>
   bit (displayControl s) 0 = blinkCursorStatus_ST7920 s \<and>
   displayStatus_ST7920 (setDisplayStatus_ST7920 (CHR ''D'') status s) = status \<and>
   underlineCursorStatus_ST7920 (setDisplayStatus_ST7920 (CHR ''D'') status s) = underlineCursorStatus_ST7920 s \<and>
   blinkCursorStatus_ST7920 (setDisplayStatus_ST7920 (CHR ''D'') status s) = blinkCursorStatus_ST7920 s \<and>
   displayStatus_ST7920 (setDisplayStatus_ST7920 (CHR ''C'') status s) = displayStatus_ST7920 s \<and>
   underlineCursorStatus_ST7920 (setDisplayStatus_ST7920 (CHR ''C'') status s) = status \<and>
   blinkCursorStatus_ST7920 (setDisplayStatus_ST7920 (CHR ''C'') status s) = blinkCursorStatus_ST7920 s \<and>
   displayStatus_ST7920 (setDisplayStatus_ST7920 (CHR ''B'') status s) = displayStatus_ST7920 s \<and>
   underlineCursorStatus_ST7920 (setDisplayStatus_ST7920 (CHR ''B'') status s) = underlineCursorStatus_ST7920 s \<and>
   blinkCursorStatus_ST7920 (setDisplayStatus_ST7920 (CHR ''B'') status s) = status \<and>
   (underlineCursorStatus_ST7920 s \<and> blinkCursorStatus_ST7920 s \<longrightarrow>
      (\<exists>s'. setDisplayStatus_ST7920 (CHR ''C'') True (setDisplayStatus_ST7920 (CHR ''D'') False s) =
              sendInstruction_ST7920 0b0000001011 s') \<and>
      \<not> displayStatus_ST7920
          (setDisplayStatus_ST7920 (CHR ''C'') True (setDisplayStatus_ST7920 (CHR ''D'') False s)) \<and>
      underlineCursorStatus_ST7920
          (setDisplayStatus_ST7920 (CHR ''C'') True (setDisplayStatus_ST7920 (CHR ''D'') False s)) \<and>
      blinkCursorStatus_ST7920
          (setDisplayStatus_ST7920 (CHR ''C'') True (setDisplayStatus_ST7920 (CHR ''D'') False s))) \<and>
   bus (setDisplayStatus_ST7920 (CHR ''D'') status s) =
     bus s @
     (if instructionSet_ST7920 s = CHR ''E''
      then [Transfer 0b11111000, Transfer 0b00110000, Transfer 0b00000000, DelayMicroseconds 80]
      else []) @
     [Transfer 0b11111000, Transfer 0b00000000,
      Transfer (0b10000000 OR (if status then 0b01000000 else 0) OR
                (if underlineCursorStatus_ST7920 s then 0b00100000 else 0) OR
                (if blinkCursorStatus_ST7920 s then 0b00010000 else 0)),
      DelayMicroseconds 80] \<and>
   bus (setDisplayStatus_ST7920 (CHR ''C'') status s) =
     bus s @
     (if instructionSet_ST7920 s = CHR ''E''
      then [Transfer 0b11111000, Transfer 0b00110000, Transfer 0b00000000, DelayMicroseconds 80]
      else []) @
     [Transfer 0b11111000, Transfer 0b00000000,
      Transfer (0b10000000 OR (if displayStatus_ST7920 s then 0b01000000 else 0) OR
                (if status then 0b00100000 else 0) OR
                (if blinkCursorStatus_ST7920 s then 0b00010000 else 0)),
      DelayMicroseconds 80] \<and>
   bus (setDisplayStatus_ST7920 (CHR ''B'') status s) =
     bus s @
     (if instructionSet_ST7920 s = CHR ''E''
      then [Transfer 0b11111000, Transfer 0b00110000, Transfer 0b00000000, DelayMicroseconds 80]
      else []) @
     [Transfer 0b11111000, Transfer 0b00000000,
      Transfer (0b10000000 OR (if displayStatus_ST7920 s then 0b01000000 else 0) OR
                (if underlineCursorStatus_ST7920 s then 0b00100000 else 0) OR
                (if status then 0b00010000 else 0)),
      DelayMicroseconds 80] \<and>
   (underlineCursorStatus_ST7920 s \<and> blinkCursorStatus_ST7920 s \<longrightarrow>
      bus (setDisplayStatus_ST7920 (CHR ''C'') True (setDisplayStatus_ST7920 (CHR ''D'') False s)) =
        bus s @
        (if instructionSet_ST7920 s = CHR ''E''
         then [Transfer 0b11111000, Transfer 0b00110000, Transfer 0b00000000, DelayMicroseconds 80]
         else []) @
        [Transfer 0b11111000, Transfer 0b00000000, Transfer 0b10110000, DelayMicroseconds 80,
         Transfer 0b11111000, Transfer 0b00000000, Transfer 0b10110000, DelayMicroseconds 80])"
proof -
  note old = setDisplayStatus_flags_and_state[of status s]
  have fl:
    "displayStatus_ST7920 (setDisplayStatus_ST7920 (CHR ''D'') status s) = status"
    "underlineCursorStatus_ST7920 (setDisplayStatus_ST7920 (CHR ''D'') status s) = underlineCursorStatus_ST7920 s"
    "blinkCursorStatus_ST7920 (setDisplayStatus_ST7920 (CHR ''D'') status s) = blinkCursorStatus_ST7920 s"
    "displayStatus_ST7920 (setDisplayStatus_ST7920 (CHR ''C'') status s) = displayStatus_ST7920 s"
    "underlineCursorStatus_ST7920 (setDisplayStatus_ST7920 (CHR ''C'') status s) = status"
    "blinkCursorStatus_ST7920 (setDisplayStatus_ST7920 (CHR ''C'') status s) = blinkCursorStatus_ST7920 s"
    "displayStatus_ST7920 (setDisplayStatus_ST7920 (CHR ''B'') status s) = displayStatus_ST7920 s"
    "underlineCursorStatus_ST7920 (setDisplayStatus_ST7920 (CHR ''B'') status s) = underlineCursorStatus_ST7920 s"
    "blinkCursorStatus_ST7920 (setDisplayStatus_ST7920 (CHR ''B'') status s) = status"
    using old by blast+
  have busD:
    "bus (setDisplayStatus_ST7920 (CHR ''D'') status s) =
     bus s @
     (if instructionSet_ST7920 s = CHR ''E''
      then [Transfer 0b11111000, Transfer 0b00110000, Transfer 0b00000000, DelayMicroseconds 80]
      else []) @
     [Transfer 0b11111000, Transfer 0b00000000,
      Transfer (0b10000000 OR (if status then 0b01000000 else 0) OR
                (if underlineCursorStatus_ST7920 s then 0b00100000 else 0) OR
                (if blinkCursorStatus_ST7920 s then 0b00010000 else 0)),
      DelayMicroseconds 80]"
    using setDisplayStatus_bus[of "CHR ''D''" status s] by (simp only: fl)
  have busC:
    "bus (setDisplayStatus_ST7920 (CHR ''C'') status s) =
     bus s @
     (if instructionSet_ST7920 s = CHR ''E''
      then [Transfer 0b11111000, Transfer 0b00110000, Transfer 0b00000000, DelayMicroseconds 80]
      else []) @
     [Transfer 0b11111000, Transfer 0b00000000,
      Transfer (0b10000000 OR (if displayStatus_ST7920 s then 0b01000000 else 0) OR
                (if status then 0b00100000 else 0) OR
                (if blinkCursorStatus_ST7920 s then 0b00010000 else 0)),
      DelayMicroseconds 80]"
    using setDisplayStatus_bus[of "CHR ''C''" status s] by (simp only: fl)
  have busB:
    "bus (setDisplayStatus_ST7920 (CHR ''B'') status s) =
     bus s @
     (if instructionSet_ST7920 s = CHR ''E''
      then [Transfer 0b11111000, Transfer 0b00110000, Transfer 0b00000000, DelayMicroseconds 80]
      else []) @
     [Transfer 0b11111000, Transfer 0b00000000,
      Transfer (0b10000000 OR (if displayStatus_ST7920 s then 0b01000000 else 0) OR
                (if underlineCursorStatus_ST7920 s then 0b00100000 else 0) OR
                (if status then 0b00010000 else 0)),
      DelayMicroseconds 80]"
    using setDisplayStatus_bus[of "CHR ''B''" status s] by (simp only: fl)
  show ?thesis
    using old busD busC busB setDisplayStatus_example_bus[of s] by blast
qed

theorem setDisplayStatus_one_flag_witness:
  "underlineCursorStatus_ST7920 startup \<and> blinkCursorStatus_ST7920 startup \<and>
   bus (setDisplayStatus_ST7920 (CHR ''C'') True (setDisplayStatus_ST7920 (CHR ''D'') False startup)) =
     [Transfer 0b11111000, Transfer 0b00000000, Transfer 0b10110000, DelayMicroseconds 80,
      Transfer 0b11111000, Transfer 0b00000000, Transfer 0b10110000, DelayMicroseconds 80] \<and>
   (\<exists>s'. setDisplayStatus_ST7920 (CHR ''C'') True (setDisplayStatus_ST7920 (CHR ''D'') False startup) =
              sendInstruction_ST7920 0b0000001011 s') \<and>
   \<not> displayStatus_ST7920
       (setDisplayStatus_ST7920 (CHR ''C'') True (setDisplayStatus_ST7920 (CHR ''D'') False startup)) \<and>
   underlineCursorStatus_ST7920
       (setDisplayStatus_ST7920 (CHR ''C'') True (setDisplayStatus_ST7920 (CHR ''D'') False startup)) \<and>
   blinkCursorStatus_ST7920
       (setDisplayStatus_ST7920 (CHR ''C'') True (setDisplayStatus_ST7920 (CHR ''D'') False startup))"
proof -
  have on: "underlineCursorStatus_ST7920 startup \<and> blinkCursorStatus_ST7920 startup"
    by (simp add: startup_def)
  have mode: "instructionSet_ST7920 startup \<noteq> CHR ''E''" and empty: "bus startup = []"
    by (simp_all add: startup_def)
  have "bus (setDisplayStatus_ST7920 (CHR ''C'') True (setDisplayStatus_ST7920 (CHR ''D'') False startup)) =
      bus startup @
      (if instructionSet_ST7920 startup = CHR ''E''
       then [Transfer 0b11111000, Transfer 0b00110000, Transfer 0b00000000, DelayMicroseconds 80]
       else []) @
      [Transfer 0b11111000, Transfer 0b00000000, Transfer 0b10110000, DelayMicroseconds 80,
       Transfer 0b11111000, Transfer 0b00000000, Transfer 0b10110000, DelayMicroseconds 80]"
    using setDisplayStatus_one_flag[of False startup] on by blast
  then have "bus (setDisplayStatus_ST7920 (CHR ''C'') True (setDisplayStatus_ST7920 (CHR ''D'') False startup)) =
      [Transfer 0b11111000, Transfer 0b00000000, Transfer 0b10110000, DelayMicroseconds 80,
       Transfer 0b11111000, Transfer 0b00000000, Transfer 0b10110000, DelayMicroseconds 80]"
    by (simp only: mode empty if_False append_Nil)
  then show ?thesis
    using setDisplayStatus_one_flag[of False startup] on by blast
qed

text \<open>
  C8. \<open>initialize_ST7920\<close> leaves the tracked mode Basic and the three flags as they
  were, and after opening the SPI bus it sends, in this order and with these delays:
  the function-set instruction \<open>0b0000110000\<close>, the display-control instruction of the
  current flags, the clear-display instruction \<open>0b0000000001\<close> and the entry-mode
  instruction \<open>0b0000000110\<close>, which is the one \<open>setEntryMode_ST7920\<close> sends for a
  cursor moving right.
\<close>

theorem initialize_sequence:
  "instructionSet_ST7920 (initialize_ST7920 s) = CHR ''B'' \<and>
   displayStatus_ST7920 (initialize_ST7920 s) = displayStatus_ST7920 s \<and>
   underlineCursorStatus_ST7920 (initialize_ST7920 s) = underlineCursorStatus_ST7920 s \<and>
   blinkCursorStatus_ST7920 (initialize_ST7920 s) = blinkCursorStatus_ST7920 s \<and>
   bus (initialize_ST7920 s) =
     bus s @ [Begin, BeginTransaction 600000 MSBFIRST SPI_MODE3] @
     transaction 0b0000110000 @ [DelayMicroseconds 20] @
     transaction (displayControl s) @ [DelayMicroseconds 20] @
     transaction 0b0000000001 @ [Delay 10] @
     transaction 0b0000000110 \<and>
   bus (setEntryMode_ST7920 (CHR ''C'') (CHR ''R'') (initialize_ST7920 s)) =
     bus (initialize_ST7920 s) @ transaction 0b0000000110"
  by (simp add: initialize_fields initialize_bus setEntryMode_ST7920_def
      chooseInstructionSet_Basic_otherwise sendInstruction_bus)

theorem initialize_sequence_witness:
  "instructionSet_ST7920 (initialize_ST7920 (startup\<lparr>instructionSet_ST7920 := CHR ''E''\<rparr>)) = CHR ''B'' \<and>
   bus (initialize_ST7920 (startup\<lparr>instructionSet_ST7920 := CHR ''E''\<rparr>)) =
     [Begin, BeginTransaction 600000 MSBFIRST SPI_MODE3,
      Transfer 0b11111000, Transfer 0b00110000, Transfer 0b00000000, DelayMicroseconds 80,
      DelayMicroseconds 20,
      Transfer 0b11111000, Transfer 0b00000000, Transfer 0b11110000, DelayMicroseconds 80,
      DelayMicroseconds 20,
      Transfer 0b11111000, Transfer 0b00000000, Transfer 0b00010000, DelayMicroseconds 80,
      Delay 10,
      Transfer 0b11111000, Transfer 0b00000000, Transfer 0b01100000, DelayMicroseconds 80]"
  using initialize_sequence[of "startup\<lparr>instructionSet_ST7920 := CHR ''E''\<rparr>"]
  by (simp add: startup_def transaction_bytes displayControl_def)



subsection \<open>The text renderer\<close>

lemma byte_Suc: "(i::byte) < n \<Longrightarrow> unat (i + 1) = Suc (unat i)"
  by unat_arith

lemma loop_run:
  assumes "unat len \<le> size chars" "i \<le> len" "m = unat len - unat i"
  shows "printHalfCharacters_loop chars len i position s =
         Some (position + (len - i),
               printHalfCharacters_run position (take m (drop (unat i) chars)) s)"
  using assms
proof (induction m arbitrary: i position s)
  case 0
  then have "i = len" by unat_arith
  then show ?case using 0 by (subst printHalfCharacters_loop.simps) simp
next
  case (Suc m)
  then have lt: "i < len" by unat_arith
  then have ui: "unat (i + 1) = Suc (unat i)" by (rule byte_Suc)
  have inb: "unat i < size chars" using lt Suc.prems(1) by unat_arith
  have le': "i + 1 \<le> len" using lt by unat_arith
  have m: "m = unat len - unat (i + 1)" using Suc.prems(3) ui by simp
  have tk: "take (Suc m) (drop (unat i) chars) = chars ! unat i # take m (drop (unat (i + 1)) chars)"
    using inb ui by (simp add: Cons_nth_drop_Suc[symmetric])
  have "printHalfCharacters_loop chars len i position s =
        printHalfCharacters_loop chars len (i + 1) (position + 1)
          (printHalfCharacters_body position (chars ! unat i) s)"
    using lt inb
    by (subst printHalfCharacters_loop.simps) (simp add: printHalfCharacters_body_def Let_def)
  also have "\<dots> = Some (position + 1 + (len - (i + 1)),
       printHalfCharacters_run (position + 1) (take m (drop (unat (i + 1)) chars))
         (printHalfCharacters_body position (chars ! unat i) s))"
    using Suc.IH[OF Suc.prems(1) le' m] .
  finally show ?case by (simp add: tk)
qed

lemma writeCharacters_simps:
  "writeCharacters [] s = s"
  "writeCharacters (c # cs) s =
     writeCharacters cs (sendInstruction_ST7920 (0b1000000000 OR scast (of_char c :: byte)) s)"
  "writeCharacters (xs @ ys) s = writeCharacters ys (writeCharacters xs s)"
  by (simp_all add: writeCharacters_def)

lemma run_no_boundary:
  assumes "\<forall>j < size cs. position + of_nat j \<notin> {16, 32, 48}"
  shows "printHalfCharacters_run position cs s = writeCharacters cs s"
  using assms
proof (induction cs arbitrary: position s)
  case Nil
  then show ?case by (simp add: writeCharacters_simps)
next
  case (Cons c cs)
  from Cons.prems have here: "position \<notin> {16, 32, 48}" by fastforce
  have "\<forall>j < size cs. (position + 1) + of_nat j \<notin> {16, 32, 48}"
  proof (intro allI impI)
    fix j assume "j < size cs"
    then have "position + of_nat (Suc j) \<notin> {16, 32, 48}" using Cons.prems by auto 
    then show "(position + 1) + of_nat j \<notin> {16, 32, 48}" by (simp add: add.assoc add.commute)
  qed
  then have "printHalfCharacters_run (position + 1) cs s' = writeCharacters cs s'" for s'
    by (rule Cons.IH)
  then show ?case using here
    by (simp add: writeCharacters_simps printHalfCharacters_body_def)
qed

lemma run_append:
  "printHalfCharacters_run position (xs @ ys) s =
   printHalfCharacters_run (position + of_nat (size xs)) ys (printHalfCharacters_run position xs s)"
  by (induction xs arbitrary: position s) (simp_all add: add.assoc add.commute)

lemma single_hit:
  assumes "filter P [0..<n] = [k]"
  shows "k < n" "P k" "\<forall>j<n. j \<noteq> k \<longrightarrow> \<not> P j"
proof -
  have s: "{j. j < n \<and> P j} = {k}"
    using arg_cong[OF assms, of set] by auto
  then show "k < n" "P k" by auto
  show "\<forall>j<n. j \<noteq> k \<longrightarrow> \<not> P j" using s by blast
qed

lemma run_one_boundary:
  assumes "k < size cs"
    and "position + of_nat k \<in> {16, 32, 48}"
    and "\<forall>j < size cs. j \<noteq> k \<longrightarrow> position + of_nat j \<notin> {16, 32, 48}"
  shows "printHalfCharacters_run position cs s =
         writeCharacters (drop k cs)
           (setCursor_ST7920 ((position + of_nat k) div 2) (writeCharacters (take k cs) s))"
proof -
  have split: "cs = take k cs @ (cs ! k # drop (Suc k) cs)"
    using assms(1) by (simp add: id_take_nth_drop[symmetric])
  have before: "printHalfCharacters_run position (take k cs) s = writeCharacters (take k cs) s"
    using assms(1,3) by (intro run_no_boundary) auto
  have "\<forall>j < size (drop (Suc k) cs). (position + of_nat k + 1) + of_nat j \<notin> {16, 32, 48}"
  proof (intro allI impI)
    fix j assume "j < size (drop (Suc k) cs)"
    then have "Suc (k + j) < size cs" "Suc (k + j) \<noteq> k" by auto
    then have "position + of_nat (Suc (k + j)) \<notin> {16, 32, 48}" using assms(3) by blast
    then show "(position + of_nat k + 1) + of_nat j \<notin> {16, 32, 48}"
      by (simp add: add.assoc add.commute add.left_commute)
  qed
  then have after: "printHalfCharacters_run (position + of_nat k + 1) (drop (Suc k) cs) s' =
      writeCharacters (drop (Suc k) cs) s'" for s'
    by (rule run_no_boundary)
  have at: "printHalfCharacters_body (position + of_nat k) c s' =
      sendInstruction_ST7920 (0b1000000000 OR scast (of_char c :: byte))
        (setCursor_ST7920 ((position + of_nat k) div 2) s')" for c s'
    using assms(2) by (auto simp add: printHalfCharacters_body_def)
  have "printHalfCharacters_run position cs s =
      printHalfCharacters_run position (take k cs @ (cs ! k # drop (Suc k) cs)) s"
    using split by simp
  also have "\<dots> = writeCharacters (drop (Suc k) cs)
      (sendInstruction_ST7920 (0b1000000000 OR scast (of_char (cs ! k) :: byte))
        (setCursor_ST7920 ((position + of_nat k) div 2) (writeCharacters (take k cs) s)))"
    using assms(1) by (simp add: run_append before after at min_def)
  also have "\<dots> = writeCharacters (cs ! k # drop (Suc k) cs)
      (setCursor_ST7920 ((position + of_nat k) div 2) (writeCharacters (take k cs) s))"
    by (simp add: writeCharacters_simps)
  also have "cs ! k # drop (Suc k) cs = drop k cs"
    using assms(1) by (simp add: Cons_nth_drop_Suc)
  finally show ?thesis .
qed

lemma printHalfCharacters_one_hit:
  assumes "unat length' \<le> size chars"
    and k: "k < unat length'"
    and hit: "row * 16 + column + of_nat k \<in> {16, 32, 48}"
    and rest: "\<forall>j<unat length'. j \<noteq> k \<longrightarrow> row * 16 + column + of_nat j \<notin> {16, 32, 48}"
  shows "printHalfCharacters_ST7920 chars length' row column s =
     Some (let position = row * 16 + column;
               s1 = setCursor_ST7920 (position div 2) s;
               s2 = (if position mod 2 = 1 then sendInstruction_ST7920 0b1000100000 s1 else s1);
               s3 = writeCharacters (take k chars) s2;
               s4 = setCursor_ST7920 ((position + of_nat k) div 2) s3;
               s5 = writeCharacters (drop k (take (unat length') chars)) s4
           in if (position + length') mod 2 = 1 then sendInstruction_ST7920 0b1000100000 s5 else s5)"
proof -
  let ?p = "row * 16 + column"
  let ?cs = "take (unat length') chars"
  have len: "size ?cs = unat length'" using assms(1) by simp
  have loop: "printHalfCharacters_loop chars length' 0 ?p s' =
      Some (?p + length', printHalfCharacters_run ?p ?cs s')" for s'
    using loop_run[OF assms(1), of 0 "unat length'" ?p s'] by simp
  have run: "printHalfCharacters_run ?p ?cs s' =
      writeCharacters (drop k ?cs) (setCursor_ST7920 ((?p + of_nat k) div 2) (writeCharacters (take k ?cs) s'))"
    for s'
    using k hit rest by (intro run_one_boundary) (simp_all only: len)
  have tk: "take (min k (unat length')) chars = take k chars" using k by (simp add: min_def)
  show ?thesis
    by (simp add: printHalfCharacters_ST7920_def loop run tk Let_def)
qed

lemma single_in_list:
  assumes "filter Q xs = [b]"
  shows "b \<in> set xs" "Q b" "\<forall>x \<in> set xs. Q x \<longrightarrow> x = b"
proof -
  have s: "{x \<in> set xs. Q x} = {b}"
    using arg_cong[OF assms, of set] by auto
  then show "b \<in> set xs" "Q b" by auto
  show "\<forall>x \<in> set xs. Q x \<longrightarrow> x = b" using s by blast
qed

lemma byte_of_nat_eq_iff:
  assumes "m < 256" "n < 256"
  shows "((of_nat m :: byte) = of_nat n) = (m = n)"
  using assms by (auto simp add: word_unat_eq_iff unat_of_nat)

lemma unat_start_position:
  assumes "unat row * 16 + unat column < 256"
  shows "unat (row * 16 + column :: byte) = unat row * 16 + unat column"
proof -
  have "unat (row * 16 + column) = (unat row * 16 + unat column) mod 256"
    by (simp add: unat_word_ariths mod_simps)
  then show ?thesis using assms by simp
qed

lemma running_position_boundary_iff:
  fixes p :: byte
  assumes "unat p + j < 256"
  shows "(p + of_nat j \<in> {16, 32, 48}) = (unat p + j \<in> {16, 32, 48})"
proof -
  have "p + of_nat j = of_nat (unat p + j)" by simp
  moreover have "(16 :: byte) = of_nat 16" "(32 :: byte) = of_nat 32" "(48 :: byte) = of_nat 48"
    by simp_all
  ultimately show ?thesis
    using assms by (simp only: insert_iff empty_iff byte_of_nat_eq_iff)
qed

text \<open>
  C7 (as amended). Let the array hold at least \<open>length\<close> characters, let the span of
  half-width positions from \<open>row * 16 + column\<close> to \<open>row * 16 + column + length - 1\<close>
  stay below 256 (a position is a byte), let it not start on a row boundary, and let
  exactly one of the row boundaries 16, 32 and 48 lie strictly inside it. Then
  \<open>printHalfCharacters_ST7920\<close> returns, and what it does is: the first
  \<open>setCursor_ST7920\<close>, the space when the start is odd, the characters before the
  boundary, one more \<open>setCursor_ST7920\<close> for half the boundary position, the remaining
  characters, and the space when the end is odd. The characters before and after are
  sent by \<open>writeCharacters\<close>, which calls no \<open>setCursor_ST7920\<close>. The extra call
  puts one set-DDRAM-address transaction on the bus, for address 16, 8 or 24 at the
  boundary 16, 32 or 48. For row 0, column 14 and length 4 the one extra call comes at
  position 16, after two characters.
\<close>

theorem printHalfCharacters_one_boundary:
  assumes chars: "unat length' \<le> size chars"
    and range: "unat row * 16 + unat column + unat length' \<le> 256"
    and start: "unat row * 16 + unat column \<notin> {16, 32, 48}"
    and cross: "filter (\<lambda>b. unat row * 16 + unat column < b \<and>
                             b < unat row * 16 + unat column + unat length') [16, 32, 48] = [boundary]"
  shows "printHalfCharacters_ST7920 chars length' row column s =
     Some (let position = row * 16 + column;
               k = boundary - (unat row * 16 + unat column);
               s1 = setCursor_ST7920 (position div 2) s;
               s2 = (if position mod 2 = 1 then sendInstruction_ST7920 0b1000100000 s1 else s1);
               s3 = writeCharacters (take k chars) s2;
               s4 = setCursor_ST7920 (of_nat (boundary div 2)) s3;
               s5 = writeCharacters (drop k (take (unat length') chars)) s4
           in if (position + length') mod 2 = 1 then sendInstruction_ST7920 0b1000100000 s5 else s5) \<and>
     bus (setCursor_ST7920 (of_nat (boundary div 2)) s') =
       bus s' @ [Transfer 0b11111000,
                 Transfer (if boundary = 32 then 0b10000000 else 0b10010000),
                 Transfer (if boundary = 16 then 0b00000000 else 0b10000000),
                 DelayMicroseconds 80]"
proof -
  let ?P = "unat row * 16 + unat column"
  let ?p = "row * 16 + column"
  let ?k = "boundary - ?P"
  have b: "boundary \<in> {16, 32, 48}"
    using single_in_list(1)[OF cross] by simp
  have lo: "?P < boundary" and hi: "boundary < ?P + unat length'"
    using single_in_list(2)[OF cross] by simp_all
  have only: "x = boundary" if "x \<in> {16, 32, 48}" "?P < x" "x < ?P + unat length'" for x
  proof -
    have "x \<in> set [16, 32, 48]" using that(1) by simp
    then show ?thesis using single_in_list(3)[OF cross] that(2,3) by blast
  qed
  have P256: "?P < 256" using lo b by auto
  have P: "unat ?p = ?P" using P256 by (rule unat_start_position)
  have k: "?k < unat length'" using lo hi by simp
  have iff: "(?p + of_nat j \<in> {16, 32, 48}) = (?P + j \<in> {16, 32, 48})" if "j < unat length'" for j
    using running_position_boundary_iff[of ?p j] that range by (simp add: P)
  have hit: "?p + of_nat ?k \<in> {16, 32, 48}"
    using iff[OF k] lo b by simp
  have rest: "\<forall>j<unat length'. j \<noteq> ?k \<longrightarrow> ?p + of_nat j \<notin> {16, 32, 48}"
  proof (intro allI impI)
    fix j assume j: "j < unat length'" "j \<noteq> ?k"
    show "?p + of_nat j \<notin> {16, 32, 48}"
    proof
      assume "?p + of_nat j \<in> {16, 32, 48}"
      then have in_set: "?P + j \<in> {16, 32, 48}" using iff[OF j(1)] by simp
      then have "j \<noteq> 0" using start by (cases "j = 0") auto
      then have "?P < ?P + j" "?P + j < ?P + unat length'" using j(1) by simp_all
      then have "?P + j = boundary" using in_set by (intro only)
      then show False using j(2) by simp
    qed
  qed
  have "?p + of_nat ?k = of_nat (unat ?p) + of_nat ?k" by simp
  also have "\<dots> = of_nat (unat ?p + ?k)" by (simp only: of_nat_add)
  also have "unat ?p + ?k = boundary" using lo by (simp add: P)
  finally have "?p + of_nat ?k = of_nat boundary" .
  moreover have "(of_nat boundary :: byte) div 2 = of_nat (boundary div 2)"
  proof -
    consider "boundary = 16" | "boundary = 32" | "boundary = 48" using b by blast
    then show ?thesis by cases simp_all
  qed
  ultimately have half: "(?p + of_nat ?k) div 2 = of_nat (boundary div 2)"
    by (simp only:)
  have extra: "bus (setCursor_ST7920 (of_nat (boundary div 2)) s') =
       bus s' @ [Transfer 0b11111000,
                 Transfer (if boundary = 32 then 0b10000000 else 0b10010000),
                 Transfer (if boundary = 16 then 0b00000000 else 0b10000000),
                 DelayMicroseconds 80]"
  proof -
    consider "boundary = 16" | "boundary = 32" | "boundary = 48" using b by blast
    then show ?thesis
      by cases (simp_all add: setCursor_ST7920_def sendInstruction_bus transaction_bytes)
  qed
  have "printHalfCharacters_ST7920 chars length' row column s =
     Some (let position = row * 16 + column;
               k = boundary - (unat row * 16 + unat column);
               s1 = setCursor_ST7920 (position div 2) s;
               s2 = (if position mod 2 = 1 then sendInstruction_ST7920 0b1000100000 s1 else s1);
               s3 = writeCharacters (take k chars) s2;
               s4 = setCursor_ST7920 (of_nat (boundary div 2)) s3;
               s5 = writeCharacters (drop k (take (unat length') chars)) s4
           in if (position + length') mod 2 = 1 then sendInstruction_ST7920 0b1000100000 s5 else s5)"
    using printHalfCharacters_one_hit[OF chars k hit rest, of s]
    by (simp only: half Let_def)
  then show ?thesis using extra by (rule conjI)
qed

theorem printHalfCharacters_one_boundary_witness:
  "printHalfCharacters_ST7920 ''abcd'' 4 0 14 startup =
     Some (startup\<lparr>bus :=
       [Transfer 0b11111000, Transfer 0b10000000, Transfer 0b01110000, DelayMicroseconds 80,
        Transfer 0b11111010, Transfer 0b01100000, Transfer 0b00010000, DelayMicroseconds 80,
        Transfer 0b11111010, Transfer 0b01100000, Transfer 0b00100000, DelayMicroseconds 80,
        Transfer 0b11111000, Transfer 0b10010000, Transfer 0b00000000, DelayMicroseconds 80,
        Transfer 0b11111010, Transfer 0b01100000, Transfer 0b00110000, DelayMicroseconds 80,
        Transfer 0b11111010, Transfer 0b01100000, Transfer 0b01000000, DelayMicroseconds 80]\<rparr>)"
proof -
  have h1: "unat (4 :: byte) \<le> size ''abcd''" by simp
  have h2: "unat (0 :: byte) * 16 + unat (14 :: byte) + unat (4 :: byte) \<le> 256" by simp
  have h3: "unat (0 :: byte) * 16 + unat (14 :: byte) \<notin> {16, 32, 48}" by simp
  have h4: "filter (\<lambda>b. unat (0 :: byte) * 16 + unat (14 :: byte) < b \<and>
                         b < unat (0 :: byte) * 16 + unat (14 :: byte) + unat (4 :: byte)) [16, 32, 48] = [16]"
    by simp
  show ?thesis
    using printHalfCharacters_one_boundary[OF h1 h2 h3 h4, of startup, THEN conjunct1]
    by (simp add: Let_def writeCharacters_def setCursor_ST7920_def sendInstruction_eq
        transaction_bytes startup_def)
qed

text \<open>
  C7 as the claim states it fails for a span that starts on a row boundary: for row 1,
  column 0 and length 17 the span is 16 to 32 and crosses the boundary 32 only, yet the
  loop test of line 159 is true at its first iteration too, so the loop calls
  \<open>setCursor_ST7920\<close> twice. The bus shows three set-DDRAM-address transactions (first
  byte \<open>0b11111000\<close>): the one of line 155, its repetition before the first character,
  and the one for position 32.
\<close>

theorem printHalfCharacters_start_on_boundary:
  "filter (\<lambda>b. unat (1 :: byte) * 16 + unat (0 :: byte) < b \<and>
                b < unat (1 :: byte) * 16 + unat (0 :: byte) + unat (17 :: byte)) [16, 32, 48] = [32] \<and>
   printHalfCharacters_ST7920 ''abcdefghijklmnopq'' 17 1 0 startup =
     Some (startup\<lparr>bus :=
       [Transfer 0b11111000, Transfer 0b10010000, Transfer 0b00000000, DelayMicroseconds 80,
        Transfer 0b11111000, Transfer 0b10010000, Transfer 0b00000000, DelayMicroseconds 80,
        Transfer 0b11111010, Transfer 0b01100000, Transfer 0b00010000, DelayMicroseconds 80,
        Transfer 0b11111010, Transfer 0b01100000, Transfer 0b00100000, DelayMicroseconds 80,
        Transfer 0b11111010, Transfer 0b01100000, Transfer 0b00110000, DelayMicroseconds 80,
        Transfer 0b11111010, Transfer 0b01100000, Transfer 0b01000000, DelayMicroseconds 80,
        Transfer 0b11111010, Transfer 0b01100000, Transfer 0b01010000, DelayMicroseconds 80,
        Transfer 0b11111010, Transfer 0b01100000, Transfer 0b01100000, DelayMicroseconds 80,
        Transfer 0b11111010, Transfer 0b01100000, Transfer 0b01110000, DelayMicroseconds 80,
        Transfer 0b11111010, Transfer 0b01100000, Transfer 0b10000000, DelayMicroseconds 80,
        Transfer 0b11111010, Transfer 0b01100000, Transfer 0b10010000, DelayMicroseconds 80,
        Transfer 0b11111010, Transfer 0b01100000, Transfer 0b10100000, DelayMicroseconds 80,
        Transfer 0b11111010, Transfer 0b01100000, Transfer 0b10110000, DelayMicroseconds 80,
        Transfer 0b11111010, Transfer 0b01100000, Transfer 0b11000000, DelayMicroseconds 80,
        Transfer 0b11111010, Transfer 0b01100000, Transfer 0b11010000, DelayMicroseconds 80,
        Transfer 0b11111010, Transfer 0b01100000, Transfer 0b11100000, DelayMicroseconds 80,
        Transfer 0b11111010, Transfer 0b01100000, Transfer 0b11110000, DelayMicroseconds 80,
        Transfer 0b11111010, Transfer 0b01110000, Transfer 0b00000000, DelayMicroseconds 80,
        Transfer 0b11111000, Transfer 0b10000000, Transfer 0b10000000, DelayMicroseconds 80,
        Transfer 0b11111010, Transfer 0b01110000, Transfer 0b00010000, DelayMicroseconds 80,
        Transfer 0b11111010, Transfer 0b00100000, Transfer 0b00000000, DelayMicroseconds 80]\<rparr>)"
proof -
  have loop: "printHalfCharacters_loop ''abcdefghijklmnopq'' 17 0 16 s =
      Some (16 + (17 - 0), printHalfCharacters_run 16 (take 17 (drop (unat (0 :: byte)) ''abcdefghijklmnopq'')) s)"
    for s
    by (rule loop_run) simp_all
  show ?thesis
    by (simp add: printHalfCharacters_ST7920_def loop Let_def printHalfCharacters_body_def
        setCursor_ST7920_def sendInstruction_eq transaction_bytes startup_def)
qed

end
